theory Spec2Isabelle
  imports Complex_Main
begin

section \<open>GeoPackage tile merge (merge.ts): data model\<close>

text \<open>
  The program drives SQLite through better-sqlite3. A database file is modelled by the
  part of its content that the program reads or writes: the list of tables of
  \<^verbatim>\<open>sqlite_master\<close>, the rows of the three GeoPackage catalog tables that
  \<^verbatim>\<open>copyTileMetadata\<close> touches, and the two header pragmas that
  \<^verbatim>\<open>finalizeGeoPackage\<close> sets. Scope of the model:
  \<^item> every file is a GeoPackage, so the three catalog tables exist, with the constraints of
    the standard schema (primary key \<^verbatim>\<open>table_name\<close>, unique
    \<^verbatim>\<open>identifier\<close>, primary key \<^verbatim>\<open>(table_name, zoom_level)\<close>);
    foreign keys and triggers are not modelled;
  \<^item> the four columns that the tile copy selects hold non-NULL values; a table that does
    not offer the four columns has no tile rows to select (\<open>tiles = None\<close>);
  \<^item> the surrogate \<^verbatim>\<open>id\<close> column of the destination table is never read by the
    program and is left out; rows are kept in insertion order;
  \<^item> every file that exists is a database; an attached database is read as it stands
    when it is attached;
  \<^item> console output is left out, and with it the file sizes of the log lines.
\<close>

record tile =
  zoom_level :: int
  tile_column :: int
  tile_row :: int
  tile_data :: string

type_synonym tile_key = "int \<times> int \<times> int"

definition tile_key :: "tile \<Rightarrow> tile_key" where
  "tile_key t = (zoom_level t, tile_column t, tile_row t)"

record table_info =
  name :: string
  columns :: "string list"
  tiles :: "tile list option"

datatype sql_value = SqlNull | SqlInteger int | SqlReal real | SqlText string

record contents_row =
  c_table_name :: string
  c_data_type :: sql_value
  c_identifier :: "string option"
  c_description :: string
  c_last_change :: string
  c_min_x :: sql_value
  c_min_y :: sql_value
  c_max_x :: sql_value
  c_max_y :: sql_value
  c_srs_id :: sql_value

record tile_matrix_set_row =
  s_table_name :: string
  s_srs_id :: sql_value
  s_min_x :: sql_value
  s_min_y :: sql_value
  s_max_x :: sql_value
  s_max_y :: sql_value

record tile_matrix_row =
  m_table_name :: string
  m_zoom_level :: int
  m_matrix_width :: sql_value
  m_matrix_height :: sql_value
  m_tile_width :: sql_value
  m_tile_height :: sql_value
  m_pixel_x_size :: sql_value
  m_pixel_y_size :: sql_value

record database =
  tables :: "table_info list"
  gpkg_contents :: "contents_row list"
  gpkg_tile_matrix_set :: "tile_matrix_set_row list"
  gpkg_tile_matrix :: "tile_matrix_row list"
  application_id :: int
  user_version :: int

text \<open>A file that SQLite creates on first access: no table, no row, pragmas 0.\<close>

definition empty_database :: database where
  "empty_database = \<lparr>tables = [], gpkg_contents = [], gpkg_tile_matrix_set = [],
     gpkg_tile_matrix = [], application_id = 0, user_version = 0\<rparr>"

text \<open>The file system: the database stored at each path that exists.\<close>

type_synonym files = "string \<Rightarrow> database option"

text \<open>
  A thrown value. \<^verbatim>\<open>new Error(msg)\<close> and the driver's \<^verbatim>\<open>SqliteError\<close>
  both carry a message; neither has a \<^verbatim>\<open>status\<close> property, so reading
  \<^verbatim>\<open>error.status\<close> gives \<^verbatim>\<open>undefined\<close> (\<open>None\<close>).
\<close>

datatype error = Error string | SqliteError string

definition status :: "error \<Rightarrow> nat option" where
  "status e = None"

definition BAD_REQUEST :: nat where
  "BAD_REQUEST = 400"

section \<open>Schema inspection\<close>

text \<open>
  SQL \<^verbatim>\<open>LIKE\<close>: \<^verbatim>\<open>%\<close> matches any run of characters, \<^verbatim>\<open>_\<close> any one
  character, and any other character matches itself without regard to ASCII case.
\<close>

definition lower_char :: "char \<Rightarrow> char" where
  "lower_char c =
     (let n = (of_char c :: nat) in if 65 \<le> n \<and> n \<le> 90 then char_of (n + 32) else c)"

fun sql_like :: "string \<Rightarrow> string \<Rightarrow> bool" where
  "sql_like [] s = (s = [])"
| "sql_like (p # ps) s =
     (if p = CHR ''%'' then
        (sql_like ps s \<or> (case s of [] \<Rightarrow> False | c # cs \<Rightarrow> sql_like (p # ps) cs))
      else
        (case s of [] \<Rightarrow> False
         | c # cs \<Rightarrow> (p = CHR ''_'' \<or> lower_char p = lower_char c) \<and> sql_like ps cs))"

definition reserved_name :: "string \<Rightarrow> bool" where
  "reserved_name n =
     (sql_like ''sqlite_%'' n \<or> sql_like ''gpkg_%'' n \<or> sql_like ''rtree_%'' n
      \<or> sql_like ''idx_%'' n)"

definition getDataTables :: "database \<Rightarrow> table_info list" where
  "getDataTables db = filter (\<lambda>t. \<not> reserved_name (name t)) (tables db)"

text \<open>
  Quoting. The program builds SQL text by interpolation: a table name between double
  quotes, a file path between single quotes. SQLite reads a quoted token up to the next
  quote character that is not doubled; a doubled quote stands for one quote character.
  \<open>sql_quoted q s\<close> reads the text \<open>s\<close> that follows an opening quote \<open>q\<close> and
  returns the token's value and the text after the closing quote, or \<open>None\<close> when the
  token is not terminated.
\<close>

definition dquote :: char where
  "dquote = CHR 0x22"

definition squote :: char where
  "squote = CHR 0x27"

fun sql_quoted :: "char \<Rightarrow> string \<Rightarrow> (string \<times> string) option" where
  "sql_quoted q [] = None"
| "sql_quoted q [c] = (if c = q then Some ([], []) else None)"
| "sql_quoted q (c # d # ds) =
     (if c = q then
        (if d = q then map_option (\<lambda>(v, r). (q # v, r)) (sql_quoted q ds)
         else Some ([], d # ds))
      else map_option (\<lambda>(v, r). (c # v, r)) (sql_quoted q (d # ds)))"

text \<open>
  The table that \<^verbatim>\<open>"${name}"\<close> denotes inside a statement. The statement is the
  intended one when the quoted token ends at the interpolated closing quote; any other
  shape is modelled as a syntax error.
\<close>

definition quoted_ident :: "string \<Rightarrow> string option" where
  "quoted_ident n =
     (case sql_quoted dquote (n @ [dquote]) of
        Some (v, []) \<Rightarrow> Some v
      | _ \<Rightarrow> None)"

definition syntax_error :: error where
  "syntax_error = SqliteError ''syntax error''"

text \<open>SQLite resolves table names without regard to ASCII case.\<close>

definition same_name :: "string \<Rightarrow> string \<Rightarrow> bool" where
  "same_name a b = (map lower_char a = map lower_char b)"

definition lookup_table :: "database \<Rightarrow> string \<Rightarrow> table_info option" where
  "lookup_table db n = find (\<lambda>t. same_name (name t) n) (tables db)"

definition getTableColumns :: "database \<Rightarrow> string \<Rightarrow> error + string list" where
  "getTableColumns db tableName =
     (case quoted_ident tableName of
        None \<Rightarrow> Inl syntax_error
      | Some n \<Rightarrow> Inr (case lookup_table db n of None \<Rightarrow> [] | Some t \<Rightarrow> columns t))"

definition has_tile_data :: "string list \<Rightarrow> bool" where
  "has_tile_data cols = list_ex (\<lambda>col. col = ''tile_data'') cols"

text \<open>
  \<^verbatim>\<open>tables.find(table => getTableColumns(db, table.name).some(...))\<close>: the first
  data table with a \<^verbatim>\<open>tile_data\<close> column; an exception of the callback ends
  the search.
\<close>

fun findTileTable :: "database \<Rightarrow> table_info list \<Rightarrow> error + table_info option" where
  "findTileTable db [] = Inr None"
| "findTileTable db (t # ts) =
     (case getTableColumns db (name t) of
        Inl e \<Rightarrow> Inl e
      | Inr cols \<Rightarrow> if has_tile_data cols then Inr (Some t) else findTileTable db ts)"

section \<open>Cleanup of the cloned output\<close>

definition drop_table :: "string \<Rightarrow> database \<Rightarrow> database" where
  "drop_table n db = db\<lparr>tables := filter (\<lambda>t. \<not> same_name (name t) n) (tables db)\<rparr>"

text \<open>
  \<^verbatim>\<open>DROP TABLE IF EXISTS "${table.name}"\<close> for every data table, in order. An
  exception leaves the tables dropped so far dropped: the result carries the database
  together with the error.
\<close>

fun drop_all :: "table_info list \<Rightarrow> database \<Rightarrow> database \<times> error option" where
  "drop_all [] db = (db, None)"
| "drop_all (t # ts) db =
     (case quoted_ident (name t) of
        None \<Rightarrow> (db, Some syntax_error)
      | Some n \<Rightarrow> drop_all ts (drop_table n db))"

definition cleanupExistingTables :: "database \<Rightarrow> database \<times> error option" where
  "cleanupExistingTables db = drop_all (getDataTables db) db"

section \<open>Metadata templating\<close>

text \<open>
  \<^verbatim>\<open>INSERT OR REPLACE\<close> deletes the rows that conflict with the new row on a primary
  key or a unique column, then appends the new row.
\<close>

definition replace_contents :: "contents_row \<Rightarrow> contents_row list \<Rightarrow> contents_row list" where
  "replace_contents r rows =
     filter (\<lambda>x. c_table_name x \<noteq> c_table_name r
                \<and> (c_identifier r = None \<or> c_identifier x \<noteq> c_identifier r)) rows @ [r]"

definition replace_tile_matrix_set ::
  "tile_matrix_set_row \<Rightarrow> tile_matrix_set_row list \<Rightarrow> tile_matrix_set_row list" where
  "replace_tile_matrix_set r rows = filter (\<lambda>x. s_table_name x \<noteq> s_table_name r) rows @ [r]"

definition replace_tile_matrix ::
  "tile_matrix_row \<Rightarrow> tile_matrix_row list \<Rightarrow> tile_matrix_row list" where
  "replace_tile_matrix r rows =
     filter (\<lambda>x. \<not> (m_table_name x = m_table_name r \<and> m_zoom_level x = m_zoom_level r)) rows
       @ [r]"

definition no_contents_entry :: "string \<Rightarrow> error" where
  "no_contents_entry t = Error (''No gpkg_contents entry found for table: '' @ t)"

definition no_tile_matrix_set :: "string \<Rightarrow> error" where
  "no_tile_matrix_set t = Error (''No tile matrix set found for table: '' @ t)"

definition no_tile_matrix_entries :: "string \<Rightarrow> error" where
  "no_tile_matrix_entries t = Error (''No tile matrix entries found for table: '' @ t)"

text \<open>
  \<open>now\<close> is the value of \<^verbatim>\<open>datetime('now')\<close>. The result is the target database as
  the call leaves it, with the exception if one was thrown: the writes made before a
  \<^verbatim>\<open>throw\<close> stay.
\<close>

definition copyTileMetadata ::
  "string \<Rightarrow> database \<Rightarrow> database \<Rightarrow> string \<Rightarrow> string \<Rightarrow> database \<times> error option" where
  "copyTileMetadata now sourceDb targetDb sourceTableName targetTableName =
     (case find (\<lambda>r. c_table_name r = sourceTableName) (gpkg_contents sourceDb) of
        None \<Rightarrow> (targetDb, Some (no_contents_entry sourceTableName))
      | Some contentsEntry \<Rightarrow>
          let t1 = targetDb\<lparr>gpkg_contents := replace_contents
                     \<lparr>c_table_name = targetTableName,
                      c_data_type = c_data_type contentsEntry,
                      c_identifier = Some targetTableName,
                      c_description = ''Merged tiles from '' @ sourceTableName,
                      c_last_change = now,
                      c_min_x = c_min_x contentsEntry,
                      c_min_y = c_min_y contentsEntry,
                      c_max_x = c_max_x contentsEntry,
                      c_max_y = c_max_y contentsEntry,
                      c_srs_id = c_srs_id contentsEntry\<rparr> (gpkg_contents targetDb)\<rparr>
          in
          (case find (\<lambda>r. s_table_name r = sourceTableName) (gpkg_tile_matrix_set sourceDb) of
             None \<Rightarrow> (t1, Some (no_tile_matrix_set sourceTableName))
           | Some tileMatrixSet \<Rightarrow>
               let t2 = t1\<lparr>gpkg_tile_matrix_set := replace_tile_matrix_set
                          \<lparr>s_table_name = targetTableName,
                           s_srs_id = s_srs_id tileMatrixSet,
                           s_min_x = s_min_x tileMatrixSet,
                           s_min_y = s_min_y tileMatrixSet,
                           s_max_x = s_max_x tileMatrixSet,
                           s_max_y = s_max_y tileMatrixSet\<rparr> (gpkg_tile_matrix_set t1)\<rparr>;
                   tileMatrices =
                     filter (\<lambda>r. m_table_name r = sourceTableName) (gpkg_tile_matrix sourceDb)
               in
               if length tileMatrices = 0
               then (t2, Some (no_tile_matrix_entries sourceTableName))
               else (t2\<lparr>gpkg_tile_matrix :=
                          fold (\<lambda>matrix. replace_tile_matrix
                                  (matrix\<lparr>m_table_name := targetTableName\<rparr>))
                            tileMatrices (gpkg_tile_matrix t2)\<rparr>, None)))"

section \<open>Destination table\<close>

definition merged_columns :: "string list" where
  "merged_columns = [''id'', ''zoom_level'', ''tile_column'', ''tile_row'', ''tile_data'']"

text \<open>
  \<^verbatim>\<open>CREATE TABLE "${tableName}" (...)\<close>: rejected when the name is taken or begins
  with the reserved \<^verbatim>\<open>sqlite_\<close>. The \<^verbatim>\<open>AUTOINCREMENT\<close> column makes SQLite
  create its bookkeeping table \<^verbatim>\<open>sqlite_sequence\<close> when the file has none.
\<close>

definition create_table :: "string \<Rightarrow> database \<Rightarrow> error + database" where
  "create_table tableName db =
     (case quoted_ident tableName of
        None \<Rightarrow> Inl syntax_error
      | Some n \<Rightarrow>
          if same_name (take 7 n) ''sqlite_'' then
            Inl (SqliteError (''object name reserved for internal use: '' @ n))
          else if lookup_table db n \<noteq> None then
            Inl (SqliteError (''table '' @ n @ '' already exists''))
          else
            Inr (db\<lparr>tables := tables db
                   @ (if lookup_table db ''sqlite_sequence'' = None
                      then [\<lparr>name = ''sqlite_sequence'', columns = [''name'', ''seq''],
                              tiles = None\<rparr>]
                      else [])
                   @ [\<lparr>name = n, columns = merged_columns, tiles = Some []\<rparr>]\<rparr>))"

definition cannot_open :: error where
  "cannot_open = SqliteError ''unable to open database file''"

definition no_tile_tables :: error where
  "no_tile_tables = Error ''No tile tables found for metadata template''"

text \<open>
  \<open>fs\<close> holds the files; the open output database is passed and returned as a value,
  and stands at \<open>out\<close> for whoever opens that path meanwhile.
\<close>

definition createTileTable ::
  "string \<Rightarrow> files \<Rightarrow> string \<Rightarrow> database \<Rightarrow> string \<Rightarrow> string \<Rightarrow> string
     \<Rightarrow> database \<times> error option" where
  "createTileTable now fs out targetDb tableName sourceFile1 sourceFile2 =
     (case create_table tableName targetDb of
        Inl e \<Rightarrow> (targetDb, Some e)
      | Inr t1 \<Rightarrow>
          (case (fs(out \<mapsto> t1)) sourceFile1 of
             None \<Rightarrow> (t1, Some cannot_open)
           | Some sourceDb1 \<Rightarrow>
          (case (fs(out \<mapsto> t1)) sourceFile2 of
             None \<Rightarrow> (t1, Some cannot_open)
           | Some sourceDb2 \<Rightarrow>
          (case findTileTable sourceDb1 (getDataTables sourceDb1) of
             Inl e \<Rightarrow> (t1, Some e)
           | Inr tileTable1 \<Rightarrow>
          (case findTileTable sourceDb2 (getDataTables sourceDb2) of
             Inl e \<Rightarrow> (t1, Some e)
           | Inr tileTable2 \<Rightarrow>
          (case (if tileTable1 \<noteq> None then tileTable1 else tileTable2) of
             None \<Rightarrow> (t1, Some no_tile_tables)
           | Some templateTable \<Rightarrow>
               copyTileMetadata now (if tileTable1 \<noteq> None then sourceDb1 else sourceDb2)
                 t1 (name templateTable) tableName))))))"

section \<open>Tile merge\<close>

text \<open>
  One row of \<^verbatim>\<open>INSERT OR IGNORE\<close> or \<^verbatim>\<open>INSERT OR REPLACE\<close> into the
  destination table, whose key \<^verbatim>\<open>(zoom_level, tile_column, tile_row)\<close> is unique.
  The second component counts \<^verbatim>\<open>changes\<close>: the rows inserted. A row that
  \<^verbatim>\<open>REPLACE\<close> deletes is not counted, a row that \<^verbatim>\<open>IGNORE\<close> skips is not
  inserted.
\<close>

definition insert_row :: "bool \<Rightarrow> tile \<Rightarrow> tile list \<times> nat \<Rightarrow> tile list \<times> nat" where
  "insert_row useIgnore t acc =
     (case acc of (rows, changes) \<Rightarrow>
        if useIgnore then
          (if tile_key t \<in> set (map tile_key rows) then (rows, changes)
           else (rows @ [t], changes + 1))
        else (filter (\<lambda>r. tile_key r \<noteq> tile_key t) rows @ [t], changes + 1))"

definition insert_rows :: "bool \<Rightarrow> tile list \<Rightarrow> tile list \<Rightarrow> tile list \<times> nat" where
  "insert_rows useIgnore src rows = fold (insert_row useIgnore) src (rows, 0)"

definition no_such_table :: "string \<Rightarrow> error" where
  "no_such_table n = SqliteError (''no such table: '' @ n)"

definition no_such_column :: error where
  "no_such_column = SqliteError ''no such column''"

definition set_tiles :: "string \<Rightarrow> tile list \<Rightarrow> database \<Rightarrow> database" where
  "set_tiles n rows db =
     db\<lparr>tables := map (\<lambda>t. if same_name (name t) n then t\<lparr>tiles := Some rows\<rparr> else t)
                     (tables db)\<rparr>"

text \<open>
  The statement \<^verbatim>\<open>INSERT OR ... INTO "${targetTable}" (...) SELECT ... FROM
  source_db."${table.name}"\<close>: the rows come from the attached database.
\<close>

definition insert_select ::
  "bool \<Rightarrow> string \<Rightarrow> string \<Rightarrow> database \<Rightarrow> database \<Rightarrow> error + database \<times> nat" where
  "insert_select useIgnore targetTable sourceTable attached targetDb =
     (case quoted_ident targetTable of
        None \<Rightarrow> Inl syntax_error
      | Some tn \<Rightarrow>
     (case quoted_ident sourceTable of
        None \<Rightarrow> Inl syntax_error
      | Some sn \<Rightarrow>
     (case lookup_table targetDb tn of
        None \<Rightarrow> Inl (no_such_table tn)
      | Some tt \<Rightarrow>
     (case lookup_table attached sn of
        None \<Rightarrow> Inl (no_such_table sn)
      | Some st \<Rightarrow>
     (case tiles tt of
        None \<Rightarrow> Inl no_such_column
      | Some rows \<Rightarrow>
     (case tiles st of
        None \<Rightarrow> Inl no_such_column
      | Some src \<Rightarrow>
          (case insert_rows useIgnore src rows of
             (rows', changes) \<Rightarrow> Inr (set_tiles tn rows' targetDb, changes))))))))"

text \<open>The loop over the source's data tables; \<open>totalTiles\<close> is the running count.\<close>

fun merge_tables ::
  "bool \<Rightarrow> string \<Rightarrow> database \<Rightarrow> database \<Rightarrow> table_info list \<Rightarrow> database \<Rightarrow> nat
     \<Rightarrow> database \<times> (error + nat)" where
  "merge_tables useIgnore targetTable sourceDb attached [] targetDb totalTiles =
     (targetDb, Inr totalTiles)"
| "merge_tables useIgnore targetTable sourceDb attached (t # ts) targetDb totalTiles =
     (case getTableColumns sourceDb (name t) of
        Inl e \<Rightarrow> (targetDb, Inl e)
      | Inr cols \<Rightarrow>
          if \<not> has_tile_data cols then
            merge_tables useIgnore targetTable sourceDb attached ts targetDb totalTiles
          else
            (case insert_select useIgnore targetTable (name t) attached targetDb of
               Inl e \<Rightarrow> (targetDb, Inl e)
             | Inr (targetDb', changes) \<Rightarrow>
                 merge_tables useIgnore targetTable sourceDb attached ts targetDb'
                   (totalTiles + changes)))"

text \<open>
  What the run takes from outside the program: Node's \<^verbatim>\<open>path.basename\<close> and
  \<^verbatim>\<open>path.extname\<close>, the clock (\<^verbatim>\<open>Date.now()\<close> and SQLite's
  \<^verbatim>\<open>datetime('now')\<close>), the answer of \<^verbatim>\<open>PRAGMA integrity_check\<close>, and
  what SQLite makes of an \<^verbatim>\<open>ATTACH DATABASE\<close> statement whose text after the
  keywords is not one quoted token followed by \<^verbatim>\<open>AS source_db\<close>: SQLite parses
  and evaluates an expression there, and \<open>sqlite_attach\<close> gives the path it attaches,
  or \<open>None\<close> when it rejects the statement.
\<close>

record env =
  path_basename :: "string \<Rightarrow> string \<Rightarrow> string"
  path_extname :: "string \<Rightarrow> string"
  date_now :: int
  datetime_now :: string
  integrity_check :: "database \<Rightarrow> string"
  sqlite_attach :: "string \<Rightarrow> string option"

text \<open>
  \<^verbatim>\<open>ATTACH DATABASE '${sourceFile}' AS source_db\<close>, and the file that the
  statement attaches.
  \<^item> When the text after the keywords is one quoted token followed by
    \<^verbatim>\<open>AS source_db\<close>, the file is the value of the token.
  \<^item> When the quoted token is not terminated, or when the text after it has an odd number
    of single quotes and no character that could open another kind of token, a comment
    or a second statement (double quote, backquote, bracket, minus, slash, semicolon),
    some quoted token of the statement is not terminated and SQLite rejects it.
  \<^item> Any other statement is left to \<open>sqlite_attach\<close>.

  A path is a file name as such: the names that SQLite reads otherwise (the empty name,
  \<^verbatim>\<open>:memory:\<close>, a URI beginning with \<^verbatim>\<open>file:\<close>) are outside the
  model.
\<close>

definition attach_sql :: "string \<Rightarrow> string" where
  "attach_sql sourceFile =
     ''ATTACH DATABASE '' @ [squote] @ sourceFile @ [squote] @ '' AS source_db''"

definition unbalanced_quote :: "string \<Rightarrow> bool" where
  "unbalanced_quote rest =
     (odd (count_list rest squote)
      \<and> list_all (\<lambda>c. c \<notin> set [dquote, CHR 0x60, CHR ''['', CHR ''-'', CHR ''/'', CHR '';''])
            rest)"

definition attach_database :: "env \<Rightarrow> string \<Rightarrow> string option" where
  "attach_database e stmt =
     (if take 17 stmt = ''ATTACH DATABASE '' @ [squote] then
        (case sql_quoted squote (drop 17 stmt) of
           None \<Rightarrow> None
         | Some (v, rest) \<Rightarrow>
             if rest = '' AS source_db'' then Some v
             else if unbalanced_quote rest then None
             else sqlite_attach e stmt)
      else sqlite_attach e stmt)"

text \<open>SQLite creates an empty database file when it attaches a path where no file stands.\<close>

definition attach_files :: "files \<Rightarrow> string \<Rightarrow> files" where
  "attach_files fs p = (if fs p = None then fs(p \<mapsto> empty_database) else fs)"

text \<open>
  \<open>fs\<close> holds the files and the open output database stands at \<open>out\<close>, as in
  \<open>createTileTable\<close>. The result carries the files as the call leaves them, the output
  database, and the count or the exception.
\<close>

definition mergeTileData ::
  "env \<Rightarrow> files \<Rightarrow> string \<Rightarrow> database \<Rightarrow> string \<Rightarrow> string \<Rightarrow> bool
     \<Rightarrow> files \<times> database \<times> (error + nat)" where
  "mergeTileData e fs out targetDb targetTable sourceFile useIgnore =
     (case (fs(out \<mapsto> targetDb)) sourceFile of
        None \<Rightarrow> (fs, targetDb, Inl cannot_open)
      | Some sourceDb \<Rightarrow>
          (case attach_database e (attach_sql sourceFile) of
             None \<Rightarrow> (fs, targetDb, Inl syntax_error)
           | Some p \<Rightarrow>
               (case merge_tables useIgnore targetTable sourceDb
                       (case (fs(out \<mapsto> targetDb)) p of
                          None \<Rightarrow> empty_database
                        | Some d \<Rightarrow> d)
                       (getDataTables sourceDb) targetDb 0 of
                  (targetDb', r) \<Rightarrow> (attach_files fs p, targetDb', r))))"

definition finalizeGeoPackage :: "database \<Rightarrow> database" where
  "finalizeGeoPackage db = db\<lparr>application_id := 1196444487, user_version := 10300\<rparr>"

section \<open>Command line, output name and the merge sequence\<close>

fun join :: "string \<Rightarrow> string list \<Rightarrow> string" where
  "join sep [] = []"
| "join sep [x] = x"
| "join sep (x # y # ys) = x @ sep @ join sep (y # ys)"

definition validateFilesExist :: "files \<Rightarrow> string \<Rightarrow> string \<Rightarrow> error option" where
  "validateFilesExist fs file1Path file2Path =
     (let file1Exists = (fs file1Path \<noteq> None); file2Exists = (fs file2Path \<noteq> None) in
      if \<not> file1Exists \<or> \<not> file2Exists then
        Some (Error (''Missing file(s): '' @ join '', ''
          (filter (\<lambda>p. p \<noteq> [])
             ((if \<not> file1Exists then [file1Path] else [])
              @ (if \<not> file2Exists then [file2Path] else [])))))
      else None)"

definition getFileName :: "env \<Rightarrow> string \<Rightarrow> string" where
  "getFileName e filepath = path_basename e filepath (path_extname e filepath)"

definition createOutputFilename :: "env \<Rightarrow> string \<Rightarrow> string \<Rightarrow> string option \<Rightarrow> string" where
  "createOutputFilename e file1Path file2Path customOutput =
     (case customOutput of
        Some c \<Rightarrow>
          if c \<noteq> [] then c
          else ''merged_'' @ getFileName e file1Path @ ''_'' @ getFileName e file2Path @ ''.gpkg''
      | None \<Rightarrow>
          ''merged_'' @ getFileName e file1Path @ ''_'' @ getFileName e file2Path @ ''.gpkg'')"

text \<open>\<^verbatim>\<open>s.replace(pat, '')\<close> removes the first occurrence of \<open>pat\<close>.\<close>

fun remove_first :: "string \<Rightarrow> string \<Rightarrow> string" where
  "remove_first pat [] = []"
| "remove_first pat (c # cs) =
     (if take (length pat) (c # cs) = pat then drop (length pat) (c # cs)
      else c # remove_first pat cs)"

text \<open>The decimal digits of a number that is not negative, as \<^verbatim>\<open>${Date.now()}\<close> prints it.\<close>

function show_dec :: "int \<Rightarrow> string" where
  "show_dec n =
     (if n < 10 then [char_of (48 + n)] else show_dec (n div 10) @ [char_of (48 + n mod 10)])"
  by pat_completeness auto
termination
  by (relation "measure nat") auto

declare show_dec.simps [simp del]

definition ensureUniqueOutputFile :: "env \<Rightarrow> files \<Rightarrow> string \<Rightarrow> string" where
  "ensureUniqueOutputFile e fs outputFilename =
     (if fs outputFilename = None then outputFilename
      else remove_first (path_extname e outputFilename) outputFilename
             @ ''_'' @ show_dec (date_now e) @ path_extname e outputFilename)"

record report =
  merged2 :: nat
  merged1 :: nat
  totalTiles :: nat
  zoomLevels :: "int list"
  finalOutputFilename :: string

datatype outcome = Usage | Failed error | Merged report

definition integrity_failed :: error where
  "integrity_failed = Error ''Database integrity check failed''"

text \<open>
  The inner \<^verbatim>\<open>try\<close> block, on the open output database. The files and the
  database are returned as the block leaves them, whether it ends normally or by an
  exception: each statement is committed when it is run.
\<close>

definition merge_sequence ::
  "env \<Rightarrow> files \<Rightarrow> string \<Rightarrow> database \<Rightarrow> string \<Rightarrow> string \<Rightarrow> string
     \<Rightarrow> files \<times> database \<times> (error + report)" where
  "merge_sequence e fs out targetDb outputTableName file1 file2 =
     (case cleanupExistingTables targetDb of
        (t1, Some err) \<Rightarrow> (fs, t1, Inl err)
      | (t1, None) \<Rightarrow>
     (case createTileTable (datetime_now e) fs out t1 outputTableName file1 file2 of
        (t2, Some err) \<Rightarrow> (fs, t2, Inl err)
      | (t2, None) \<Rightarrow>
     (case mergeTileData e fs out t2 outputTableName file2 False of
        (fs2, t3, Inl err) \<Rightarrow> (fs2, t3, Inl err)
      | (fs2, t3, Inr m2) \<Rightarrow>
     (case mergeTileData e fs2 out t3 outputTableName file1 True of
        (fs3, t4, Inl err) \<Rightarrow> (fs3, t4, Inl err)
      | (fs3, t4, Inr m1) \<Rightarrow>
          let t5 = finalizeGeoPackage t4 in
          if integrity_check e t5 \<noteq> ''ok'' then (fs3, t5, Inl integrity_failed)
          else
            (case quoted_ident outputTableName of
               None \<Rightarrow> (fs3, t5, Inl syntax_error)
             | Some n \<Rightarrow>
            (case lookup_table t5 n of
               None \<Rightarrow> (fs3, t5, Inl (no_such_table n))
             | Some t \<Rightarrow>
            (case tiles t of
               None \<Rightarrow> (fs3, t5, Inl no_such_column)
             | Some rows \<Rightarrow>
                 (fs3, t5, Inr \<lparr>merged2 = m2, merged1 = m1, totalTiles = length rows,
                                zoomLevels = sort (remdups (map zoom_level rows)),
                                finalOutputFilename = out\<rparr>))))))))"

definition nth_opt :: "'a list \<Rightarrow> nat \<Rightarrow> 'a option" where
  "nth_opt xs i = (if i < length xs then Some (xs ! i) else None)"

text \<open>
  The whole run on the arguments after the script name: the files it leaves and how it
  ends. \<^verbatim>\<open>fs.copyFileSync(file1, finalOutputFilename)\<close> puts the content of the first
  file at the output path.
\<close>

definition main :: "env \<Rightarrow> string list \<Rightarrow> files \<Rightarrow> files \<times> outcome" where
  "main e args fs =
     (if length args < 2 then (fs, Usage)
      else
        let file1 = args ! 0;
            file2 = args ! 1;
            outputTableName =
              (case nth_opt args 3 of
                 None \<Rightarrow> ''merged_tiles''
               | Some t \<Rightarrow> if t = [] then ''merged_tiles'' else t)
        in
        (case validateFilesExist fs file1 file2 of
           Some err \<Rightarrow> (fs, Failed err)
         | None \<Rightarrow>
             let out = ensureUniqueOutputFile e fs
                         (createOutputFilename e file1 file2 (nth_opt args 2));
                 fs1 = fs(out := fs file1)
             in
             (case fs1 out of
                None \<Rightarrow> (fs1, Failed cannot_open)
              | Some targetDb \<Rightarrow>
                  (case merge_sequence e fs1 out targetDb outputTableName file1 file2 of
                     (fs2, t, Inl err) \<Rightarrow> (fs2(out \<mapsto> t), Failed err)
                   | (fs2, t, Inr r) \<Rightarrow> (fs2(out \<mapsto> t), Merged r)))))"

text \<open>
  The exit code. The usage branch calls \<^verbatim>\<open>process.exit(1)\<close>; the
  \<^verbatim>\<open>catch\<close> handler chooses
  \<^verbatim>\<open>error.status === StatusCodes.BAD_REQUEST ? 1 : 2\<close>; a run that ends normally
  exits with 0.
\<close>

definition exit_code :: "outcome \<Rightarrow> nat" where
  "exit_code r =
     (case r of
        Usage \<Rightarrow> 1
      | Failed err \<Rightarrow> if status err = Some BAD_REQUEST then 1 else 2
      | Merged _ \<Rightarrow> 0)"

section \<open>Vocabulary of the properties\<close>

text \<open>
  The notions of the specification. A system table is a table whose name begins with one
  of the four reserved prefixes, as written; every other table is a user data table. A
  tile table is a user data table with a column named \<^verbatim>\<open>tile_data\<close>; the tiles
  of a file are the rows of its tile tables, pooled in table order.
\<close>

definition system_prefix :: "string \<Rightarrow> bool" where
  "system_prefix n =
     (take 7 n = ''sqlite_'' \<or> take 5 n = ''gpkg_'' \<or> take 6 n = ''rtree_''
      \<or> take 4 n = ''idx_'')"

definition user_tables :: "database \<Rightarrow> table_info list" where
  "user_tables db = filter (\<lambda>t. \<not> system_prefix (name t)) (tables db)"

definition user_tile_tables :: "database \<Rightarrow> table_info list" where
  "user_tile_tables db = filter (\<lambda>t. ''tile_data'' \<in> set (columns t)) (user_tables db)"

definition rows_of :: "table_info \<Rightarrow> tile list" where
  "rows_of t = (case tiles t of None \<Rightarrow> [] | Some rows \<Rightarrow> rows)"

definition user_tiles :: "database \<Rightarrow> tile list" where
  "user_tiles db = concat (map rows_of (user_tile_tables db))"

text \<open>
  The notions of the program. The tables that \<open>mergeTileData\<close> copies from a file are
  the tables that \<open>getDataTables\<close> lists and that have a \<^verbatim>\<open>tile_data\<close> column;
  the rows it copies are their rows, pooled in table order. The two differ from the
  notions above where the \<^verbatim>\<open>LIKE\<close> patterns match a name that does not begin
  with a reserved prefix.
\<close>

definition copied_tables :: "database \<Rightarrow> table_info list" where
  "copied_tables db = filter (\<lambda>t. has_tile_data (columns t)) (getDataTables db)"

definition copied_rows :: "database \<Rightarrow> tile list" where
  "copied_rows db = concat (map rows_of (copied_tables db))"

text \<open>The payload stored in a list of rows under a key.\<close>

definition payload_at :: "tile list \<Rightarrow> tile_key \<Rightarrow> string option" where
  "payload_at rows k = map_option tile_data (find (\<lambda>r. tile_key r = k) rows)"

text \<open>The rows of the merged table in the output file, if the file and the table exist.\<close>

definition output_rows :: "files \<Rightarrow> string \<Rightarrow> string \<Rightarrow> tile list option" where
  "output_rows fs out tableName =
     (case fs out of
        None \<Rightarrow> None
      | Some db \<Rightarrow>
          (case quoted_ident tableName of
             None \<Rightarrow> None
           | Some n \<Rightarrow>
               (case lookup_table db n of None \<Rightarrow> None | Some t \<Rightarrow> tiles t)))"

text \<open>The user data tables of the output file, by name and rows.\<close>

definition output_user_tables :: "files \<Rightarrow> string \<Rightarrow> (string \<times> tile list) list option" where
  "output_user_tables fs out =
     map_option (\<lambda>db. map (\<lambda>t. (name t, rows_of t)) (user_tables db)) (fs out)"

text \<open>
  Conditions on the table names of a file.
  \<^item> \<open>quote_free\<close>: no table name contains a double quote.
  \<^item> \<open>plain_names\<close>: moreover no two tables have the same name up to ASCII case (SQLite
    itself refuses the second).
  \<^item> \<open>ordinary_names\<close>: moreover a name that the \<^verbatim>\<open>LIKE\<close> patterns of
    \<open>getDataTables\<close> match begins with a reserved prefix, so that the tables the program
    takes for system tables are the system tables.
\<close>

definition quote_free :: "database \<Rightarrow> bool" where
  "quote_free db = list_all (\<lambda>t. dquote \<notin> set (name t)) (tables db)"

definition plain_names :: "database \<Rightarrow> bool" where
  "plain_names db =
     (list_all (\<lambda>t. dquote \<notin> set (name t)) (tables db)
      \<and> distinct (map (\<lambda>t. map lower_char (name t)) (tables db)))"

definition ordinary_names :: "database \<Rightarrow> bool" where
  "ordinary_names db =
     (plain_names db
      \<and> list_all (\<lambda>t. \<not> reserved_name (name t) \<or> system_prefix (name t)) (tables db))"


text \<open>The output path and the destination table name that a run works with.\<close>

definition output_path :: "env \<Rightarrow> string list \<Rightarrow> files \<Rightarrow> string" where
  "output_path e args fs =
     ensureUniqueOutputFile e fs (createOutputFilename e (args ! 0) (args ! 1) (nth_opt args 2))"

definition table_name_arg :: "string list \<Rightarrow> string" where
  "table_name_arg args =
     (case nth_opt args 3 of
        None \<Rightarrow> ''merged_tiles''
      | Some t \<Rightarrow> if t = [] then ''merged_tiles'' else t)"

text \<open>The three errors of the metadata templater (\<open>MissingMetadata\<close>).\<close>

definition missing_metadata :: "string \<Rightarrow> error \<Rightarrow> bool" where
  "missing_metadata t err =
     (err = no_contents_entry t \<or> err = no_tile_matrix_set t \<or> err = no_tile_matrix_entries t)"

text \<open>The zoom levels of the tile-matrix rows that a catalog holds for a table name.\<close>

definition matrix_zoom_levels :: "database \<Rightarrow> string \<Rightarrow> int list" where
  "matrix_zoom_levels db t =
     map m_zoom_level (filter (\<lambda>r. m_table_name r = t) (gpkg_tile_matrix db))"




text \<open>
  What the templater requires of the template table in its file, and what it leaves in
  the target catalog for the new table name.
\<close>

definition complete_metadata :: "database \<Rightarrow> string \<Rightarrow> bool" where
  "complete_metadata db t =
     (list_ex (\<lambda>r. c_table_name r = t) (gpkg_contents db)
      \<and> list_ex (\<lambda>r. s_table_name r = t) (gpkg_tile_matrix_set db)
      \<and> list_ex (\<lambda>r. m_table_name r = t) (gpkg_tile_matrix db))"

definition contents_rows :: "database \<Rightarrow> string \<Rightarrow> contents_row list" where
  "contents_rows db t = filter (\<lambda>r. c_table_name r = t) (gpkg_contents db)"

definition matrix_set_rows :: "database \<Rightarrow> string \<Rightarrow> tile_matrix_set_row list" where
  "matrix_set_rows db t = filter (\<lambda>r. s_table_name r = t) (gpkg_tile_matrix_set db)"

definition matrix_rows :: "database \<Rightarrow> string \<Rightarrow> int \<Rightarrow> tile_matrix_row list" where
  "matrix_rows db t z =
     filter (\<lambda>r. m_table_name r = t \<and> m_zoom_level r = z) (gpkg_tile_matrix db)"

section \<open>Example files\<close>

text \<open>
  Small GeoPackages on which the properties below are evaluated. The environment's path
  functions are those of Node on a file name without directory part and with one dot.
  No example reaches an \<^verbatim>\<open>ATTACH\<close> statement that is left to
  \<open>sqlite_attach\<close>.
\<close>

definition example_env :: env where
  "example_env =
     \<lparr>path_basename = (\<lambda>p ext. takeWhile (\<lambda>c. c \<noteq> CHR ''.'') p),
      path_extname = dropWhile (\<lambda>c. c \<noteq> CHR ''.''),
      date_now = 1700000000000,
      datetime_now = ''2024-01-01 00:00:00'',
      integrity_check = (\<lambda>db. ''ok''),
      sqlite_attach = (\<lambda>stmt. None)\<rparr>"

definition system_table :: "string \<Rightarrow> table_info" where
  "system_table n = \<lparr>name = n, columns = [], tiles = None\<rparr>"

definition feature_table :: "string \<Rightarrow> table_info" where
  "feature_table n = \<lparr>name = n, columns = [''fid'', ''geom''], tiles = None\<rparr>"

definition tile_table :: "string \<Rightarrow> tile list \<Rightarrow> table_info" where
  "tile_table n ts = \<lparr>name = n, columns = merged_columns, tiles = Some ts\<rparr>"

definition mk_tile :: "int \<Rightarrow> int \<Rightarrow> int \<Rightarrow> string \<Rightarrow> tile" where
  "mk_tile z c r d = \<lparr>zoom_level = z, tile_column = c, tile_row = r, tile_data = d\<rparr>"

definition example_contents :: "string \<Rightarrow> string \<Rightarrow> contents_row" where
  "example_contents n ty =
     \<lparr>c_table_name = n, c_data_type = SqlText ty, c_identifier = Some n,
      c_description = [], c_last_change = ''2020-01-01 00:00:00'',
      c_min_x = SqlInteger (- 180), c_min_y = SqlInteger (- 90),
      c_max_x = SqlInteger 180, c_max_y = SqlInteger 90, c_srs_id = SqlInteger 4326\<rparr>"

definition example_matrix_set :: "string \<Rightarrow> tile_matrix_set_row" where
  "example_matrix_set n =
     \<lparr>s_table_name = n, s_srs_id = SqlInteger 4326,
      s_min_x = SqlInteger (- 180), s_min_y = SqlInteger (- 90),
      s_max_x = SqlInteger 180, s_max_y = SqlInteger 90\<rparr>"

definition example_matrix :: "string \<Rightarrow> int \<Rightarrow> tile_matrix_row" where
  "example_matrix n z =
     \<lparr>m_table_name = n, m_zoom_level = z,
      m_matrix_width = SqlInteger (2 ^ nat z), m_matrix_height = SqlInteger (2 ^ nat z),
      m_tile_width = SqlInteger 256, m_tile_height = SqlInteger 256,
      m_pixel_x_size = SqlInteger 1, m_pixel_y_size = SqlInteger 1\<rparr>"

definition system_tables :: "table_info list" where
  "system_tables =
     [system_table ''gpkg_spatial_ref_sys'', system_table ''gpkg_contents'',
      system_table ''gpkg_tile_matrix_set'', system_table ''gpkg_tile_matrix'',
      system_table ''sqlite_sequence'']"

text \<open>
  A GeoPackage with a feature table, one tile table, and a tile-matrix row of the tile
  table for each given zoom level.
\<close>

definition geopackage :: "string \<Rightarrow> tile list \<Rightarrow> int list \<Rightarrow> database" where
  "geopackage n ts zs =
     \<lparr>tables = system_tables @ [feature_table ''places'', tile_table n ts],
      gpkg_contents = [example_contents ''places'' ''features'', example_contents n ''tiles''],
      gpkg_tile_matrix_set = [example_matrix_set n],
      gpkg_tile_matrix = map (example_matrix n) zs,
      application_id = 1196444487, user_version = 10200\<rparr>"

text \<open>A GeoPackage with a feature table only: no table has a \<^verbatim>\<open>tile_data\<close> column.\<close>

definition features_only :: "string \<Rightarrow> database" where
  "features_only n =
     \<lparr>tables = system_tables @ [feature_table n],
      gpkg_contents = [example_contents n ''features''],
      gpkg_tile_matrix_set = [], gpkg_tile_matrix = [],
      application_id = 1196444487, user_version = 10200\<rparr>"

text \<open>
  The scenario of the specification: A holds \<open>(0,0,0) \<mapsto> a\<close>, B holds
  \<open>(0,0,0) \<mapsto> b\<close> and \<open>(1,0,1) \<mapsto> c\<close>.
\<close>

definition scenario_A :: database where
  "scenario_A = geopackage ''tiles_a'' [mk_tile 0 0 0 ''a''] [0]"

definition scenario_B :: database where
  "scenario_B = geopackage ''tiles_b'' [mk_tile 0 0 0 ''b'', mk_tile 1 0 1 ''c''] [0, 1]"

definition scenario_files :: files where
  "scenario_files = [''a.gpkg'' \<mapsto> scenario_A, ''b.gpkg'' \<mapsto> scenario_B]"

definition scenario_args :: "string list" where
  "scenario_args = [''a.gpkg'', ''b.gpkg'']"

text \<open>A file with no key in common with A.\<close>

definition apart_B :: database where
  "apart_B = geopackage ''tiles_b'' [mk_tile 1 0 1 ''c'', mk_tile 1 1 1 ''d''] [1]"

text \<open>
  Files whose only tile table is named \<^verbatim>\<open>idxtiles\<close>: a user data table, which
  the pattern \<^verbatim>\<open>idx_%\<close> matches, since \<^verbatim>\<open>_\<close> stands for any character.
\<close>

definition idx_A :: database where
  "idx_A = geopackage ''idxtiles'' [mk_tile 0 0 0 ''a''] [0]"

definition idx_B :: database where
  "idx_B = geopackage ''idxtiles'' [mk_tile 0 0 0 ''b''] [0]"

definition idx_apart_B :: database where
  "idx_apart_B = geopackage ''idxtiles'' [mk_tile 1 0 1 ''c''] [1]"

definition idx_files :: files where
  "idx_files = [''a.gpkg'' \<mapsto> scenario_A, ''b.gpkg'' \<mapsto> idx_B]"

definition idx_apart_files :: files where
  "idx_apart_files = [''a.gpkg'' \<mapsto> scenario_A, ''b.gpkg'' \<mapsto> idx_apart_B]"

definition idx_first_files :: files where
  "idx_first_files = [''a.gpkg'' \<mapsto> idx_A, ''b.gpkg'' \<mapsto> scenario_B]"

text \<open>Two files without tile tables.\<close>

definition featured_files :: files where
  "featured_files =
     [''a.gpkg'' \<mapsto> features_only ''roads'', ''b.gpkg'' \<mapsto> features_only ''rivers'']"

text \<open>A first file whose tile table has no tile-matrix row, with the scenario's second file.\<close>

definition bare_A :: database where
  "bare_A = geopackage ''tiles_a'' [mk_tile 0 0 0 ''a''] []"

definition bare_files :: files where
  "bare_files = [''a.gpkg'' \<mapsto> bare_A, ''b.gpkg'' \<mapsto> scenario_B]"


definition quoted_path :: string where
  "quoted_path = ''b'' @ [squote, squote] @ ''x.gpkg''"

definition alias_path :: string where
  "alias_path = ''b'' @ [squote] @ ''x.gpkg''"

definition quoted_files :: files where
  "quoted_files =
     [''a.gpkg'' \<mapsto> scenario_A, quoted_path \<mapsto> scenario_B, alias_path \<mapsto> apart_B]"

definition quoted_args :: "string list" where
  "quoted_args = [''a.gpkg'', quoted_path, ''out.gpkg'']"


section \<open>Rows under the two conflict policies\<close>

lemma insert_row_replace:
  "insert_row False t (rows, c) = (filter (\<lambda>r. tile_key r \<noteq> tile_key t) rows @ [t], c + 1)"
  by (simp add: insert_row_def)

lemma insert_row_ignore:
  "insert_row True t (rows, c) =
     (if tile_key t \<in> set (map tile_key rows) then (rows, c) else (rows @ [t], c + 1))"
  by (simp add: insert_row_def)

lemma insert_row_count:
  "fold (insert_row ig) src (rows, c) =
     (fst (fold (insert_row ig) src (rows, 0)), c + snd (fold (insert_row ig) src (rows, 0)))"
proof (induction src arbitrary: rows c)
  case Nil
  show ?case by simp
next
  case (Cons x xs)
  obtain r1 d where step: "insert_row ig x (rows, 0) = (r1, d)"
    by (cases "insert_row ig x (rows, 0)")
  have step_c: "insert_row ig x (rows, c) = (r1, c + d)"
    using step by (auto simp: insert_row_def split: if_splits)
  show ?case
    using Cons.IH [of r1 "c + d"] Cons.IH [of r1 d] by (simp add: step step_c)
qed

lemma payload_at_append_hit:
  "k \<in> set (map tile_key rows) \<Longrightarrow> payload_at (rows @ new) k = payload_at rows k"
  by (induction rows) (auto simp: payload_at_def)

lemma payload_at_replace_other:
  "k \<noteq> tile_key x \<Longrightarrow>
   payload_at (filter (\<lambda>r. tile_key r \<noteq> tile_key x) rows @ [x]) k = payload_at rows k"
  by (induction rows) (auto simp: payload_at_def)

lemma payload_at_replace_same:
  "payload_at (filter (\<lambda>r. tile_key r \<noteq> tile_key x) rows @ [x]) (tile_key x)
     = Some (tile_data x)"
  by (induction rows) (auto simp: payload_at_def)

lemma replace_untouched:
  "k \<notin> set (map tile_key src) \<Longrightarrow>
   payload_at (fst (fold (insert_row False) src (rows, c))) k = payload_at rows k"
proof (induction src arbitrary: rows c)
  case Nil
  show ?case by simp
next
  case (Cons x xs)
  then have "k \<noteq> tile_key x" and "k \<notin> set (map tile_key xs)" by auto
  then show ?case
    using Cons.IH [of "filter (\<lambda>r. tile_key r \<noteq> tile_key x) rows @ [x]" "c + 1"]
    by (simp add: insert_row_replace payload_at_replace_other)
qed

lemma replace_wins:
  "k \<in> set (map tile_key src) \<Longrightarrow>
   \<exists>t \<in> set src. tile_key t = k
      \<and> payload_at (fst (fold (insert_row False) src (rows, c))) k = Some (tile_data t)"
proof (induction src arbitrary: rows c)
  case Nil
  then show ?case by simp
next
  case (Cons x xs)
  let ?r1 = "filter (\<lambda>r. tile_key r \<noteq> tile_key x) rows @ [x]"
  show ?case
  proof (cases "k \<in> set (map tile_key xs)")
    case True
    from Cons.IH [OF True, of ?r1 "c + 1"] show ?thesis
      by (auto simp: insert_row_replace)
  next
    case False
    with Cons.prems have kx: "k = tile_key x" by auto
    have "payload_at (fst (fold (insert_row False) xs (?r1, c + 1))) k = payload_at ?r1 k"
      using False by (rule replace_untouched)
    then show ?thesis
      by (simp add: insert_row_replace kx payload_at_replace_same)
  qed
qed

lemma replace_keys:
  "set (map tile_key (fst (fold (insert_row False) src (rows, c))))
     = set (map tile_key rows) \<union> set (map tile_key src)"
  by (induction src arbitrary: rows c) (auto simp: insert_row_replace)


lemma replace_distinct:
  "distinct (map tile_key rows) \<Longrightarrow>
   distinct (map tile_key (fst (fold (insert_row False) src (rows, c))))"
proof (induction src arbitrary: rows c)
  case Nil
  then show ?case by simp
next
  case (Cons x xs)
  have "distinct (map tile_key (filter (\<lambda>r. tile_key r \<noteq> tile_key x) rows @ [x]))"
    using Cons.prems by (auto simp: distinct_map_filter)
  from Cons.IH [OF this] show ?case by (simp add: insert_row_replace)
qed

lemma fresh_rows_appended:
  "distinct (map tile_key src) \<Longrightarrow> set (map tile_key src) \<inter> set (map tile_key rows) = {} \<Longrightarrow>
   fold (insert_row ig) src (rows, c) = (rows @ src, c + length src)"
proof (induction src arbitrary: rows c)
  case Nil
  show ?case by simp
next
  case (Cons x xs)
  have fresh: "tile_key x \<notin> set (map tile_key rows)" using Cons.prems by auto
  have step: "insert_row ig x (rows, c) = (rows @ [x], c + 1)"
  proof (cases ig)
    case True
    then show ?thesis using fresh by (simp add: insert_row_ignore)
  next
    case False
    have "filter (\<lambda>r. tile_key r \<noteq> tile_key x) rows = rows"
      using fresh by (simp add: filter_id_conv) (metis imageI)
    with False show ?thesis by (simp add: insert_row_replace)
  qed
  have "fold (insert_row ig) xs (rows @ [x], c + 1) = ((rows @ [x]) @ xs, (c + 1) + length xs)"
    using Cons.prems by (intro Cons.IH) auto
  then show ?case by (simp add: step)
qed

lemma ignore_extends:
  "\<exists>new. fst (fold (insert_row True) src (rows, c)) = rows @ new
      \<and> snd (fold (insert_row True) src (rows, c)) = c + length new
      \<and> set new \<subseteq> set src"
proof (induction src arbitrary: rows c)
  case Nil
  show ?case by simp
next
  case (Cons x xs)
  show ?case
  proof (cases "tile_key x \<in> set (map tile_key rows)")
    case True
    then have "insert_row True x (rows, c) = (rows, c)" by (simp add: insert_row_ignore)
    with Cons.IH [of rows c] show ?thesis by auto
  next
    case False
    then have step: "insert_row True x (rows, c) = (rows @ [x], c + 1)"
      by (simp add: insert_row_ignore)
    from Cons.IH [of "rows @ [x]" "c + 1"] obtain new where
      "fst (fold (insert_row True) xs (rows @ [x], c + 1)) = (rows @ [x]) @ new"
      "snd (fold (insert_row True) xs (rows @ [x], c + 1)) = c + 1 + length new"
      "set new \<subseteq> set xs" by blast
    then show ?thesis
      by (intro exI [of _ "x # new"]) (auto simp: step)
  qed
qed

section \<open>Quoted names and table lookup\<close>

lemma sql_quoted_other:
  "c \<noteq> q \<Longrightarrow> sql_quoted q (c # s) = map_option (\<lambda>(v, r). (c # v, r)) (sql_quoted q s)"
  by (cases s) auto

lemma sql_quoted_plain:
  "q \<notin> set n \<Longrightarrow> r = [] \<or> hd r \<noteq> q \<Longrightarrow> sql_quoted q (n @ q # r) = Some (n, r)"
proof (induction n)
  case Nil
  then show ?case by (cases r) auto
next
  case (Cons c cs)
  then have "c \<noteq> q" and "sql_quoted q (cs @ q # r) = Some (cs, r)" by auto
  then show ?case by (simp add: sql_quoted_other)
qed

lemma quoted_ident_plain: "dquote \<notin> set n \<Longrightarrow> quoted_ident n = Some n"
  using sql_quoted_plain [of dquote n "[]"] by (simp add: quoted_ident_def)

lemma attach_database_plain: "squote \<notin> set p \<Longrightarrow> attach_database e (attach_sql p) = Some p"
  using sql_quoted_plain [of squote p "'' AS source_db''"]
  by (simp add: attach_database_def attach_sql_def squote_def)



lemma find_same_name:
  "distinct (map (\<lambda>t. map lower_char (name t)) ts) \<Longrightarrow> t \<in> set ts \<Longrightarrow>
   find (\<lambda>u. same_name (name u) (name t)) ts = Some t"
  by (induction ts) (auto simp: same_name_def rev_image_eqI)

lemma lookup_table_member:
  "plain_names db \<Longrightarrow> t \<in> set (tables db) \<Longrightarrow> lookup_table db (name t) = Some t"
  by (simp add: plain_names_def lookup_table_def find_same_name)

lemma getTableColumns_member:
  "plain_names db \<Longrightarrow> t \<in> set (tables db) \<Longrightarrow> getTableColumns db (name t) = Inr (columns t)"
proof -
  assume p: "plain_names db" and t: "t \<in> set (tables db)"
  then have "dquote \<notin> set (name t)" by (simp add: plain_names_def list_all_iff)
  then have "quoted_ident (name t) = Some (name t)" by (rule quoted_ident_plain)
  then show ?thesis by (simp add: getTableColumns_def lookup_table_member [OF p t])
qed


section \<open>The merge loop\<close>

lemma find_set_tiles:
  "find (\<lambda>u. same_name (name u) n)
     (map (\<lambda>t. if same_name (name t) n then t\<lparr>tiles := Some rows\<rparr> else t) xs)
   = map_option (\<lambda>t. t\<lparr>tiles := Some rows\<rparr>) (find (\<lambda>u. same_name (name u) n) xs)"
  by (induction xs) auto

lemma lookup_set_tiles:
  "lookup_table T n = Some tt \<Longrightarrow>
   lookup_table (set_tiles n rows T) n = Some (tt\<lparr>tiles := Some rows\<rparr>)"
  by (simp add: lookup_table_def set_tiles_def find_set_tiles)

lemma set_tiles_frame:
  "gpkg_contents (set_tiles n rows T) = gpkg_contents T"
  "gpkg_tile_matrix_set (set_tiles n rows T) = gpkg_tile_matrix_set T"
  "gpkg_tile_matrix (set_tiles n rows T) = gpkg_tile_matrix T"
  "map name (tables (set_tiles n rows T)) = map name (tables T)"
  by (simp_all add: set_tiles_def comp_def)

lemma insert_select_member:
  assumes "plain_names S" "t \<in> set (tables S)" "quoted_ident tbl = Some n"
    and "lookup_table T n = Some tt" "tiles tt = Some rows"
  shows "insert_select ig tbl (name t) S T =
           (case tiles t of
              None \<Rightarrow> Inl no_such_column
            | Some src \<Rightarrow> Inr (set_tiles n (fst (insert_rows ig src rows)) T,
                               snd (insert_rows ig src rows)))"
proof -
  have "dquote \<notin> set (name t)" using assms(1,2) by (simp add: plain_names_def list_all_iff)
  then have "quoted_ident (name t) = Some (name t)" by (rule quoted_ident_plain)
  then show ?thesis
    using assms by (simp add: insert_select_def lookup_table_member split: option.splits prod.splits)
qed

lemma merge_tables_rows:
  assumes "merge_tables ig tbl S S ts T c = (T', Inr c')"
    and "plain_names S" "set ts \<subseteq> set (tables S)" "quoted_ident tbl = Some n"
    and "lookup_table T n = Some tt" "tiles tt = Some rows"
  shows "\<exists>rows'.
           fold (insert_row ig)
             (concat (map rows_of (filter (\<lambda>t. has_tile_data (columns t)) ts))) (rows, c)
             = (rows', c')
           \<and> lookup_table T' n = Some (tt\<lparr>tiles := Some rows'\<rparr>)
           \<and> gpkg_contents T' = gpkg_contents T
           \<and> gpkg_tile_matrix_set T' = gpkg_tile_matrix_set T
           \<and> gpkg_tile_matrix T' = gpkg_tile_matrix T
           \<and> map name (tables T') = map name (tables T)"
  using assms
proof (induction ts arbitrary: T c tt rows)
  case Nil
  then show ?case by (cases tt) auto
next
  case (Cons t ts)
  have t: "t \<in> set (tables S)" and ts: "set ts \<subseteq> set (tables S)" using Cons.prems(3) by auto
  have cols: "getTableColumns S (name t) = Inr (columns t)"
    using Cons.prems(2) t by (rule getTableColumns_member)
  show ?case
  proof (cases "has_tile_data (columns t)")
    case False
    then have "merge_tables ig tbl S S ts T c = (T', Inr c')"
      using Cons.prems(1) by (simp add: cols)
    from Cons.IH [OF this Cons.prems(2) ts Cons.prems(4,5,6)] show ?thesis
      using False by simp
  next
    case True
    have sel: "insert_select ig tbl (name t) S T =
           (case tiles t of
              None \<Rightarrow> Inl no_such_column
            | Some src \<Rightarrow> Inr (set_tiles n (fst (insert_rows ig src rows)) T,
                               snd (insert_rows ig src rows)))"
      using Cons.prems(2) t Cons.prems(4,5,6) by (rule insert_select_member)
    obtain src where src: "tiles t = Some src"
      using Cons.prems(1) True by (cases "tiles t") (auto simp: cols sel)
    let ?rows1 = "fst (insert_rows ig src rows)"
    let ?d = "snd (insert_rows ig src rows)"
    let ?T1 = "set_tiles n ?rows1 T"
    have run: "merge_tables ig tbl S S ts ?T1 (c + ?d) = (T', Inr c')"
      using Cons.prems(1) True by (simp add: cols sel src)
    have look: "lookup_table ?T1 n = Some (tt\<lparr>tiles := Some ?rows1\<rparr>)"
      using Cons.prems(5) by (rule lookup_set_tiles)
    have tl: "tiles (tt\<lparr>tiles := Some ?rows1\<rparr>) = Some ?rows1" by simp
    from Cons.IH [OF run Cons.prems(2) ts Cons.prems(4) look tl]
    obtain rows' where
      f: "fold (insert_row ig)
             (concat (map rows_of (filter (\<lambda>t. has_tile_data (columns t)) ts))) (?rows1, c + ?d)
             = (rows', c')"
      and l: "lookup_table T' n = Some (tt\<lparr>tiles := Some ?rows1\<rparr>\<lparr>tiles := Some rows'\<rparr>)"
      and fr: "gpkg_contents T' = gpkg_contents ?T1"
        "gpkg_tile_matrix_set T' = gpkg_tile_matrix_set ?T1"
        "gpkg_tile_matrix T' = gpkg_tile_matrix ?T1"
        "map name (tables T') = map name (tables ?T1)"
      by blast
    have first: "fold (insert_row ig) src (rows, c) = (?rows1, c + ?d)"
      using insert_row_count [of ig src rows c] by (simp add: insert_rows_def)
    have "fold (insert_row ig)
             (concat (map rows_of (filter (\<lambda>t. has_tile_data (columns t)) (t # ts)))) (rows, c)
             = (rows', c')"
      using True by (simp add: rows_of_def src first f)
    then show ?thesis
      using l fr by (simp add: set_tiles_frame)
  qed
qed

lemma find_app:
  "find P (xs @ ys) = (case find P xs of None \<Rightarrow> find P ys | Some x \<Rightarrow> Some x)"
  by (induction xs) auto

lemma mergeTileData_rows:
  assumes "mergeTileData e fs out T tbl f ig = (fs', T', Inr c')"
    and "fs f = Some S" "out \<noteq> f" "squote \<notin> set f" "plain_names S"
    and "quoted_ident tbl = Some n" "lookup_table T n = Some tt" "tiles tt = Some rows"
  shows "\<exists>rows'. insert_rows ig (copied_rows S) rows = (rows', c')
           \<and> lookup_table T' n = Some (tt\<lparr>tiles := Some rows'\<rparr>)
           \<and> gpkg_contents T' = gpkg_contents T
           \<and> gpkg_tile_matrix_set T' = gpkg_tile_matrix_set T
           \<and> gpkg_tile_matrix T' = gpkg_tile_matrix T
           \<and> map name (tables T') = map name (tables T)
           \<and> fs' = fs"
proof -
  have run: "merge_tables ig tbl S S (getDataTables S) T 0 = (T', Inr c')"
    and same: "fs' = fs"
    using assms(1,2,3) attach_database_plain [OF assms(4), of e]
    by (auto simp: mergeTileData_def attach_files_def split: prod.splits)
  have sub: "set (getDataTables S) \<subseteq> set (tables S)" by (auto simp: getDataTables_def)
  from merge_tables_rows [OF run assms(5) sub assms(6,7,8)] same
  show ?thesis by (simp add: insert_rows_def copied_rows_def copied_tables_def)
qed

lemma not_sqlite_sequence:
  "\<not> same_name (take 7 n) ''sqlite_'' \<Longrightarrow> \<not> same_name ''sqlite_sequence'' n"
proof
  assume a: "\<not> same_name (take 7 n) ''sqlite_''" and b: "same_name ''sqlite_sequence'' n"
  from b have "map lower_char n = map lower_char ''sqlite_sequence''" by (simp add: same_name_def)
  then have "take 7 (map lower_char n) = take 7 (map lower_char ''sqlite_sequence'')" by simp
  then have "map lower_char (take 7 n) = map lower_char ''sqlite_''" by (simp add: take_map)
  with a show False by (simp add: same_name_def)
qed

lemma create_table_lookup:
  assumes "create_table tbl T = Inr T1"
  shows "\<exists>n. quoted_ident tbl = Some n
           \<and> lookup_table T1 n = Some \<lparr>name = n, columns = merged_columns, tiles = Some []\<rparr>
           \<and> gpkg_contents T1 = gpkg_contents T
           \<and> gpkg_tile_matrix_set T1 = gpkg_tile_matrix_set T
           \<and> gpkg_tile_matrix T1 = gpkg_tile_matrix T"
proof -
  from assms obtain n where n: "quoted_ident tbl = Some n"
    by (auto simp: create_table_def split: option.splits)
  from assms n have ns: "\<not> same_name (take 7 n) ''sqlite_''" and free: "lookup_table T n = None"
    by (auto simp: create_table_def split: if_splits)
  have T1: "T1 = T\<lparr>tables := tables T
                   @ (if lookup_table T ''sqlite_sequence'' = None
                      then [\<lparr>name = ''sqlite_sequence'', columns = [''name'', ''seq''],
                              tiles = None\<rparr>]
                      else [])
                   @ [\<lparr>name = n, columns = merged_columns, tiles = Some []\<rparr>]\<rparr>"
    using assms n ns free by (simp add: create_table_def)
  have "find (\<lambda>t. same_name (name t) n) (tables T) = None"
    using free by (simp add: lookup_table_def)
  then have "lookup_table T1 n = Some \<lparr>name = n, columns = merged_columns, tiles = Some []\<rparr>"
    using not_sqlite_sequence [OF ns]
    by (simp add: T1 lookup_table_def find_app) (simp add: same_name_def)
  then show ?thesis using n by (simp add: T1)
qed

section \<open>A successful run\<close>

lemma copyTileMetadata_tables:
  "tables (fst (copyTileMetadata now S T s t)) = tables T"
  by (simp add: copyTileMetadata_def Let_def split: option.splits)

lemma createTileTable_success:
  assumes "createTileTable now fs out T tbl f1 f2 = (T2, None)"
  shows "\<exists>n. quoted_ident tbl = Some n
           \<and> lookup_table T2 n = Some \<lparr>name = n, columns = merged_columns, tiles = Some []\<rparr>"
proof -
  from assms obtain T1 where c: "create_table tbl T = Inr T1"
    by (cases "create_table tbl T") (auto simp: createTileTable_def)
  from assms c obtain S s where "copyTileMetadata now S T1 s tbl = (T2, None)"
    by (auto simp: createTileTable_def split: option.splits sum.splits)
  then have "tables T2 = tables T1"
    using copyTileMetadata_tables [of now S T1 s tbl] by simp
  then have "lookup_table T2 = lookup_table T1" by (simp add: lookup_table_def fun_eq_iff)
  with create_table_lookup [OF c] show ?thesis by auto
qed

lemma merge_sequence_success:
  assumes "merge_sequence e fs out T tbl f1 f2 = (fs', T', Inr r)"
  obtains t1 t2 fs2 t3 t4 n tt rows where
    "cleanupExistingTables T = (t1, None)"
    "createTileTable (datetime_now e) fs out t1 tbl f1 f2 = (t2, None)"
    "mergeTileData e fs out t2 tbl f2 False = (fs2, t3, Inr (merged2 r))"
    "mergeTileData e fs2 out t3 tbl f1 True = (fs', t4, Inr (merged1 r))"
    "T' = finalizeGeoPackage t4"
    "quoted_ident tbl = Some n" "lookup_table T' n = Some tt" "tiles tt = Some rows"
    "totalTiles r = length rows" "zoomLevels r = sort (remdups (map zoom_level rows))"
    "finalOutputFilename r = out"
  using assms unfolding merge_sequence_def
  by (auto simp: Let_def split: prod.splits option.splits sum.splits if_splits)

lemma lookup_finalize: "lookup_table (finalizeGeoPackage T) n = lookup_table T n"
  by (simp add: lookup_table_def finalizeGeoPackage_def)

lemma merge_sequence_rows:
  assumes "merge_sequence e fs out T tbl f1 f2 = (fs', T', Inr r)"
    and "fs f1 = Some A" "fs f2 = Some B" "out \<noteq> f1" "out \<noteq> f2"
    and "squote \<notin> set f1" "squote \<notin> set f2" "plain_names A" "plain_names B"
  shows "\<exists>rowsB rows n tt.
           insert_rows False (copied_rows B) [] = (rowsB, merged2 r)
           \<and> insert_rows True (copied_rows A) rowsB = (rows, merged1 r)
           \<and> quoted_ident tbl = Some n \<and> lookup_table T' n = Some tt \<and> tiles tt = Some rows
           \<and> totalTiles r = length rows
           \<and> zoomLevels r = sort (remdups (map zoom_level rows))"
proof -
  from assms(1) obtain t1 t2 fs2 t3 t4 n tt rows where
    cr: "createTileTable (datetime_now e) fs out t1 tbl f1 f2 = (t2, None)"
    and m2: "mergeTileData e fs out t2 tbl f2 False = (fs2, t3, Inr (merged2 r))"
    and m1': "mergeTileData e fs2 out t3 tbl f1 True = (fs', t4, Inr (merged1 r))"
    and T': "T' = finalizeGeoPackage t4"
    and n: "quoted_ident tbl = Some n" and tt: "lookup_table T' n = Some tt"
    and rows: "tiles tt = Some rows"
    and rep: "totalTiles r = length rows" "zoomLevels r = sort (remdups (map zoom_level rows))"
    by (rule merge_sequence_success)
  let ?new = "\<lparr>name = n, columns = merged_columns, tiles = Some []\<rparr>"
  from createTileTable_success [OF cr] n have l2: "lookup_table t2 n = Some ?new" by simp
  from mergeTileData_rows [OF m2 assms(3) assms(5) assms(7) assms(9) n l2]
  obtain rowsB where b: "insert_rows False (copied_rows B) [] = (rowsB, merged2 r)"
    and l3: "lookup_table t3 n = Some (?new\<lparr>tiles := Some rowsB\<rparr>)"
    and fs2: "fs2 = fs" by auto
  from m1' fs2 have m1: "mergeTileData e fs out t3 tbl f1 True = (fs', t4, Inr (merged1 r))"
    by simp
  from mergeTileData_rows [OF m1 assms(2) assms(4) assms(6) assms(8) n l3]
  obtain rowsA where a: "insert_rows True (copied_rows A) rowsB = (rowsA, merged1 r)"
    and l4: "lookup_table t4 n = Some (?new\<lparr>tiles := Some rowsB\<rparr>\<lparr>tiles := Some rowsA\<rparr>)" by auto
  from l4 tt rows have "rows = rowsA" by (auto simp: T' lookup_finalize)
  with a b n tt rows rep show ?thesis by blast
qed

lemma main_success:
  assumes "main e args fs = (fs', Merged r)"
  obtains T fs2 T' where "2 \<le> length args" "fs (args ! 0) = Some T" "fs (args ! 1) \<noteq> None"
    "merge_sequence e (fs(output_path e args fs := fs (args ! 0))) (output_path e args fs) T
       (table_name_arg args) (args ! 0) (args ! 1) = (fs2, T', Inr r)"
    "fs' = fs2(output_path e args fs \<mapsto> T')"
proof -
  from assms have len: "2 \<le> length args" by (auto simp: main_def split: if_splits)
  from assms len have ex: "fs (args ! 0) \<noteq> None" "fs (args ! 1) \<noteq> None"
    by (auto simp: main_def validateFilesExist_def Let_def split: if_splits option.splits)
  then obtain T where T: "fs (args ! 0) = Some T" by auto
  have v: "validateFilesExist fs (args ! 0) (args ! 1) = None"
    using ex by (simp add: validateFilesExist_def)
  let ?out = "output_path e args fs"
  let ?fs1 = "fs(?out := fs (args ! 0))"
  obtain fs2 T' x where
    ms: "merge_sequence e ?fs1 ?out T (table_name_arg args) (args ! 0) (args ! 1)
       = (fs2, T', x)"
    by (cases "merge_sequence e ?fs1 ?out T (table_name_arg args) (args ! 0) (args ! 1)")
  have unfolded: "main e args fs =
      (case x of Inl err \<Rightarrow> (fs2(?out \<mapsto> T'), Failed err)
               | Inr r \<Rightarrow> (fs2(?out \<mapsto> T'), Merged r))"
    using len v T ms
    by (cases x) (simp_all add: main_def Let_def output_path_def table_name_arg_def)
  with assms have "x = Inr r" and "fs' = fs2(?out \<mapsto> T')"
    by (auto split: sum.splits)
  with ms len T ex that show ?thesis by blast
qed

lemma main_rows:
  assumes "main e args fs = (fs', Merged r)"
    and "fs (args ! 0) = Some A" "fs (args ! 1) = Some B"
    and "plain_names A" "plain_names B"
    and "squote \<notin> set (args ! 0)" "squote \<notin> set (args ! 1)"
    and "output_path e args fs \<noteq> args ! 0" "output_path e args fs \<noteq> args ! 1"
  shows "\<exists>rowsB rows.
           insert_rows False (copied_rows B) [] = (rowsB, merged2 r)
           \<and> insert_rows True (copied_rows A) rowsB = (rows, merged1 r)
           \<and> output_rows fs' (output_path e args fs) (table_name_arg args) = Some rows
           \<and> totalTiles r = length rows
           \<and> zoomLevels r = sort (remdups (map zoom_level rows))"
proof -
  let ?out = "output_path e args fs"
  let ?fs1 = "fs(?out := fs (args ! 0))"
  from assms(1) obtain T fs2 T' where
    ms: "merge_sequence e ?fs1 ?out T (table_name_arg args) (args ! 0) (args ! 1)
           = (fs2, T', Inr r)"
    and fs': "fs' = fs2(?out \<mapsto> T')"
    by (rule main_success)
  have a: "?fs1 (args ! 0) = Some A" and b: "?fs1 (args ! 1) = Some B"
    using assms(2,3,8,9) by auto
  from merge_sequence_rows [OF ms a b assms(8,9,6,7,4,5)]
  obtain rowsB rows n tt where
    "insert_rows False (copied_rows B) [] = (rowsB, merged2 r)"
    "insert_rows True (copied_rows A) rowsB = (rows, merged1 r)"
    "quoted_ident (table_name_arg args) = Some n" "lookup_table T' n = Some tt"
    "tiles tt = Some rows" "totalTiles r = length rows"
    "zoomLevels r = sort (remdups (map zoom_level rows))"
    by blast
  then show ?thesis
    by (intro exI [of _ rowsB] exI [of _ rows]) (simp add: output_rows_def fs')
qed

lemma ignore_distinct:
  "distinct (map tile_key rows) \<Longrightarrow>
   distinct (map tile_key (fst (fold (insert_row True) src (rows, c))))"
proof (induction src arbitrary: rows c)
  case Nil
  then show ?case by simp
next
  case (Cons x xs)
  show ?case
  proof (cases "tile_key x \<in> set (map tile_key rows)")
    case True
    with Cons.IH [OF Cons.prems, of c] show ?thesis by (simp add: insert_row_ignore)
  next
    case False
    then have "distinct (map tile_key (rows @ [x]))" using Cons.prems by simp
    from Cons.IH [OF this, of "c + 1"] False show ?thesis by (simp add: insert_row_ignore)
  qed
qed

lemma payload_at_distinct:
  "distinct (map tile_key rows) \<Longrightarrow> t \<in> set rows \<Longrightarrow>
   payload_at rows (tile_key t) = Some (tile_data t)"
  by (induction rows) (auto simp: payload_at_def rev_image_eqI)

lemma distinct_key_count:
  "distinct (map tile_key rows) \<Longrightarrow> k \<in> set (map tile_key rows) \<Longrightarrow>
   length (filter (\<lambda>x. tile_key x = k) rows) = 1"
proof (induction rows)
  case Nil
  then show ?case by simp
next
  case (Cons x xs)
  show ?case
  proof (cases "tile_key x = k")
    case True
    then have "filter (\<lambda>x. tile_key x = k) xs = []"
      using Cons.prems(1) by (simp add: filter_empty_conv) (metis imageI)
    with True show ?thesis by simp
  next
    case False
    with Cons show ?thesis by auto
  qed
qed

section \<open>Cleanup, template and failure of a run\<close>


lemma drop_all_plain:
  "\<forall>t \<in> set ts. dquote \<notin> set (name t) \<Longrightarrow>
   drop_all ts db = (fold (\<lambda>t. drop_table (name t)) ts db, None)"
  by (induction ts arbitrary: db) (simp_all add: quoted_ident_plain)






lemma find_None_list_ex: "(find P xs = None) = (\<not> list_ex P xs)"
  by (induction xs) auto

lemma find_Some_list_ex: "find P xs = Some x \<Longrightarrow> list_ex P xs"
  by (induction xs) (auto split: if_splits)

lemma filter_Nil_list_ex: "(filter P xs = []) = (\<not> list_ex P xs)"
  by (induction xs) auto

lemma copyTileMetadata_result:
  "snd (copyTileMetadata now S T s t) =
     (if \<not> list_ex (\<lambda>r. c_table_name r = s) (gpkg_contents S) then Some (no_contents_entry s)
      else if \<not> list_ex (\<lambda>r. s_table_name r = s) (gpkg_tile_matrix_set S)
        then Some (no_tile_matrix_set s)
      else if \<not> list_ex (\<lambda>r. m_table_name r = s) (gpkg_tile_matrix S)
        then Some (no_tile_matrix_entries s)
      else None)"
  by (auto simp: copyTileMetadata_def Let_def find_None_list_ex filter_Nil_list_ex
        split: option.splits dest: find_Some_list_ex)

lemma error_kinds:
  "\<not> missing_metadata s (SqliteError m)"
  "\<not> missing_metadata s no_tile_tables"
  "\<not> missing_metadata s integrity_failed"
  by (simp_all add: missing_metadata_def no_contents_entry_def no_tile_matrix_set_def
        no_tile_matrix_entries_def no_tile_tables_def integrity_failed_def)

lemma merge_tables_error:
  "merge_tables ig tbl S att ts T c = (T', Inl err) \<Longrightarrow> \<exists>m. err = SqliteError m"
proof (induction ts arbitrary: T c)
  case Nil
  then show ?case by simp
next
  case (Cons t ts)
  then show ?case
    by (auto simp: getTableColumns_def insert_select_def syntax_error_def no_such_table_def
          no_such_column_def split: option.splits sum.splits if_splits prod.splits)
qed

lemma mergeTileData_error:
  "mergeTileData e fs out T tbl f ig = (fs', T', Inl err) \<Longrightarrow> \<exists>m. err = SqliteError m"
  by (auto simp: mergeTileData_def cannot_open_def syntax_error_def
        split: option.splits prod.splits dest: merge_tables_error)

lemma drop_all_error: "drop_all ts db = (db', Some err) \<Longrightarrow> err = syntax_error"
  by (induction ts arbitrary: db) (auto split: option.splits)

lemma findTileTable_error: "findTileTable db ts = Inl err \<Longrightarrow> err = syntax_error"
  by (induction ts) (auto simp: getTableColumns_def split: option.splits sum.splits if_splits)

lemma create_table_error: "create_table tbl T = Inl err \<Longrightarrow> \<exists>m. err = SqliteError m"
  by (auto simp: create_table_def syntax_error_def split: option.splits if_splits)

lemma createTileTable_missing:
  assumes "createTileTable now fs out T tbl f1 f2 = (T2, Some err)" "missing_metadata s err"
  shows "\<exists>T1. create_table tbl T = Inr T1 \<and> tables T2 = tables T1"
proof (cases "create_table tbl T")
  case (Inl e)
  with assms(1) have "err = e" by (simp add: createTileTable_def)
  with create_table_error [OF Inl] assms(2) show ?thesis by (auto simp: error_kinds)
next
  case (Inr T1)
  from assms(1) Inr have
    "err = cannot_open \<or> err = syntax_error \<or> err = no_tile_tables
     \<or> (\<exists>S s'. copyTileMetadata now S T1 s' tbl = (T2, Some err))"
    by (auto simp: createTileTable_def split: option.splits sum.splits if_splits
          dest: findTileTable_error)
  with assms(2) obtain S s' where "copyTileMetadata now S T1 s' tbl = (T2, Some err)"
    by (auto simp: error_kinds cannot_open_def syntax_error_def)
  then have "tables T2 = tables T1"
    using copyTileMetadata_tables [of now S T1 s' tbl] by simp
  with Inr show ?thesis by simp
qed

lemma merge_sequence_missing:
  assumes "merge_sequence e fs out T0 tbl f1 f2 = (fs', T', Inl err)" "missing_metadata s err"
  shows "\<exists>n. quoted_ident tbl = Some n
           \<and> lookup_table T' n = Some \<lparr>name = n, columns = merged_columns, tiles = Some []\<rparr>"
proof -
  obtain t1 r1 where cl: "cleanupExistingTables T0 = (t1, r1)"
    by (cases "cleanupExistingTables T0")
  obtain t2 r2 where cr: "createTileTable (datetime_now e) fs out t1 tbl f1 f2 = (t2, r2)"
    by (cases "createTileTable (datetime_now e) fs out t1 tbl f1 f2")
  have not_sql: "err \<noteq> SqliteError m" for m
    using assms(2) error_kinds(1) by blast
  have r1: "r1 = None"
  proof (cases r1)
    case (Some x)
    with cl assms(1) have "err = x" by (simp add: merge_sequence_def)
    moreover have "x = syntax_error"
      using cl Some drop_all_error by (auto simp: cleanupExistingTables_def)
    ultimately show ?thesis using not_sql by (simp add: syntax_error_def)
  qed simp
  have "r2 = Some err \<and> T' = t2"
  proof (cases r2)
    case (Some x)
    with cl r1 cr assms(1) show ?thesis by (simp add: merge_sequence_def)
  next
    case None
    with cl r1 cr assms(1) have
      "(\<exists>m. err = SqliteError m) \<or> err = integrity_failed"
      by (auto simp: merge_sequence_def Let_def syntax_error_def no_such_table_def
            no_such_column_def
            split: prod.splits sum.splits option.splits if_splits dest: mergeTileData_error)
    with assms(2) show ?thesis by (auto simp: error_kinds)
  qed
  with cr have cr': "createTileTable (datetime_now e) fs out t1 tbl f1 f2 = (T', Some err)"
    by simp
  from createTileTable_missing [OF cr' assms(2)] obtain T1 where
    c: "create_table tbl t1 = Inr T1" and tb: "tables T' = tables T1" by blast
  from tb have "lookup_table T' = lookup_table T1" by (simp add: lookup_table_def fun_eq_iff)
  with create_table_lookup [OF c] show ?thesis by auto
qed

lemma copyTileMetadata_written:
  assumes "copyTileMetadata now S T s t = (T2, None)"
  shows "length (contents_rows T2 t) = 1" and "length (matrix_set_rows T2 t) = 1"
  using assms
  by (auto simp: copyTileMetadata_def Let_def contents_rows_def replace_contents_def
        matrix_set_rows_def replace_tile_matrix_set_def filter_empty_conv
        split: option.splits if_splits)

lemma replace_other_zoom:
  "m_zoom_level m \<noteq> z \<Longrightarrow>
   filter (\<lambda>r. m_table_name r = t \<and> m_zoom_level r = z)
     (replace_tile_matrix (m\<lparr>m_table_name := t\<rparr>) rows)
   = filter (\<lambda>r. m_table_name r = t \<and> m_zoom_level r = z) rows"
  by (induction rows) (auto simp: replace_tile_matrix_def)

lemma replace_same_zoom:
  "length (filter (\<lambda>r. m_table_name r = t \<and> m_zoom_level r = m_zoom_level m)
     (replace_tile_matrix (m\<lparr>m_table_name := t\<rparr>) rows)) = 1"
  by (simp add: replace_tile_matrix_def filter_empty_conv)

lemma fold_replace_untouched:
  "z \<notin> set (map m_zoom_level ms) \<Longrightarrow>
   filter (\<lambda>r. m_table_name r = t \<and> m_zoom_level r = z)
     (fold (\<lambda>m. replace_tile_matrix (m\<lparr>m_table_name := t\<rparr>)) ms rows)
   = filter (\<lambda>r. m_table_name r = t \<and> m_zoom_level r = z) rows"
proof (induction ms arbitrary: rows)
  case Nil
  show ?case by simp
next
  case (Cons m ms)
  then have "m_zoom_level m \<noteq> z" and "z \<notin> set (map m_zoom_level ms)" by auto
  then show ?case
    using Cons.IH [of "replace_tile_matrix (m\<lparr>m_table_name := t\<rparr>) rows"]
    by (simp add: replace_other_zoom)
qed

lemma fold_replace_one:
  "z \<in> set (map m_zoom_level ms) \<Longrightarrow>
   length (filter (\<lambda>r. m_table_name r = t \<and> m_zoom_level r = z)
     (fold (\<lambda>m. replace_tile_matrix (m\<lparr>m_table_name := t\<rparr>)) ms rows)) = 1"
proof (induction ms arbitrary: rows)
  case Nil
  then show ?case by simp
next
  case (Cons m ms)
  show ?case
  proof (cases "z \<in> set (map m_zoom_level ms)")
    case True
    from Cons.IH [OF True] show ?thesis by simp
  next
    case False
    with Cons.prems have z: "z = m_zoom_level m" by auto
    show ?thesis
      using fold_replace_untouched [OF False]
      by (simp add: z replace_same_zoom)
  qed
qed

lemma copyTileMetadata_matrix_rows:
  assumes "copyTileMetadata now S T s t = (T2, None)" "z \<in> set (matrix_zoom_levels S s)"
  shows "length (matrix_rows T2 t z) = 1"
proof -
  from assms(1) have
    "gpkg_tile_matrix T2 =
       fold (\<lambda>m. replace_tile_matrix (m\<lparr>m_table_name := t\<rparr>))
         (filter (\<lambda>r. m_table_name r = s) (gpkg_tile_matrix S)) (gpkg_tile_matrix T)"
    by (auto simp: copyTileMetadata_def Let_def split: option.splits if_splits)
  then show ?thesis
    using assms(2) unfolding matrix_rows_def matrix_zoom_levels_def
    by (simp only: fold_replace_one)
qed

lemma sql_like_same_name:
  "map lower_char a = map lower_char b \<Longrightarrow> sql_like p a = sql_like p b"
proof (induction p a arbitrary: b rule: sql_like.induct)
  case (1 s)
  then show ?case by (cases s; cases b) auto
next
  case (2 p ps s)
  show ?case
  proof (cases s)
    case Nil
    with "2.prems" have "b = []" by simp
    with Nil "2.IH"(1) [of b] show ?thesis by auto
  next
    case (Cons c cs)
    with "2.prems" obtain d ds where b: "b = d # ds" and h: "lower_char c = lower_char d"
      and t: "map lower_char cs = map lower_char ds" by (cases b) auto
    show ?thesis
    proof (cases "p = CHR ''%''")
      case True
      with "2.IH"(1) [OF True "2.prems"] "2.IH"(2) [OF True Cons t] Cons b show ?thesis
        by simp
    next
      case False
      with "2.IH"(3) [OF False Cons t] Cons b h show ?thesis by simp
    qed
  qed
qed

lemma reserved_same_name: "same_name a b \<Longrightarrow> reserved_name a = reserved_name b"
proof -
  assume "same_name a b"
  then have "sql_like p a = sql_like p b" for p
    unfolding same_name_def by (rule sql_like_same_name)
  then show ?thesis by (simp only: reserved_name_def)
qed

lemma sql_like_percent: "sql_like ''%'' s"
  by (induction s) auto

lemma sql_like_prefix:
  "CHR ''%'' \<notin> set pre \<Longrightarrow> sql_like (pre @ ''%'') (pre @ r)"
proof (induction pre)
  case Nil
  show ?case using sql_like_percent [of r] by simp
next
  case (Cons c pre)
  then have "c \<noteq> CHR ''%''" and "sql_like (pre @ ''%'') (pre @ r)" by auto
  then show ?case by simp
qed

lemma system_prefix_reserved: "system_prefix n \<Longrightarrow> reserved_name n"
proof -
  assume "system_prefix n"
  then consider r where "n = ''sqlite_'' @ r" | r where "n = ''gpkg_'' @ r"
    | r where "n = ''rtree_'' @ r" | r where "n = ''idx_'' @ r"
    unfolding system_prefix_def by (metis append_take_drop_id)
  then show ?thesis
  proof cases
    case 1
    have "sql_like (''sqlite_'' @ ''%'') (''sqlite_'' @ r)" by (rule sql_like_prefix) simp
    then show ?thesis unfolding reserved_name_def 1 by simp
  next
    case 2
    have "sql_like (''gpkg_'' @ ''%'') (''gpkg_'' @ r)" by (rule sql_like_prefix) simp
    then show ?thesis unfolding reserved_name_def 2 by simp
  next
    case 3
    have "sql_like (''rtree_'' @ ''%'') (''rtree_'' @ r)" by (rule sql_like_prefix) simp
    then show ?thesis unfolding reserved_name_def 3 by simp
  next
    case 4
    have "sql_like (''idx_'' @ ''%'') (''idx_'' @ r)" by (rule sql_like_prefix) simp
    then show ?thesis unfolding reserved_name_def 4 by simp
  qed
qed

lemma fold_drop_table:
  "fold (\<lambda>t. drop_table (name t)) ts db
     = db\<lparr>tables := filter (\<lambda>u. \<forall>t \<in> set ts. \<not> same_name (name u) (name t)) (tables db)\<rparr>"
proof (induction ts arbitrary: db)
  case Nil
  show ?case by simp
next
  case (Cons t ts)
  show ?case
    by (simp add: Cons.IH) (simp add: drop_table_def conj_commute)
qed

lemma cleanup_filter:
  assumes "\<forall>t \<in> set (tables db). dquote \<notin> set (name t)"
  shows "cleanupExistingTables db
           = (db\<lparr>tables := filter (\<lambda>t. reserved_name (name t)) (tables db)\<rparr>, None)"
proof -
  have "\<forall>t \<in> set (getDataTables db). dquote \<notin> set (name t)"
    using assms by (simp add: getDataTables_def)
  then have c: "cleanupExistingTables db
           = (fold (\<lambda>t. drop_table (name t)) (getDataTables db) db, None)"
    unfolding cleanupExistingTables_def by (rule drop_all_plain)
  have "(\<forall>t \<in> set (getDataTables db). \<not> same_name (name u) (name t)) = reserved_name (name u)"
    if "u \<in> set (tables db)" for u
  proof (cases "reserved_name (name u)")
    case True
    then have "\<not> same_name (name u) (name t)" if "t \<in> set (getDataTables db)" for t
      using that reserved_same_name [of "name u" "name t"] by (auto simp: getDataTables_def)
    with True show ?thesis by blast
  next
    case False
    then have "u \<in> set (getDataTables db)" using that by (simp add: getDataTables_def)
    moreover have "same_name (name u) (name u)" by (simp add: same_name_def)
    ultimately show ?thesis using False by blast
  qed
  then have "filter (\<lambda>u. \<forall>t \<in> set (getDataTables db). \<not> same_name (name u) (name t)) (tables db)
               = filter (\<lambda>t. reserved_name (name t)) (tables db)"
    by (intro filter_cong) auto
  then show ?thesis by (simp add: c fold_drop_table)
qed

section \<open>Where the notions of the program and of the specification agree\<close>

lemma has_tile_data_iff: "has_tile_data cols = (''tile_data'' \<in> set cols)"
  by (auto simp: has_tile_data_def list_ex_iff)

lemma ordinary_reserved:
  "ordinary_names db \<Longrightarrow> t \<in> set (tables db) \<Longrightarrow>
   reserved_name (name t) = system_prefix (name t)"
  using system_prefix_reserved [of "name t"]
  by (auto simp: ordinary_names_def list_all_iff)

lemma ordinary_copied_tables: "ordinary_names db \<Longrightarrow> copied_tables db = user_tile_tables db"
  unfolding copied_tables_def user_tile_tables_def getDataTables_def user_tables_def
  by (auto simp: has_tile_data_iff ordinary_reserved intro!: filter_cong)

lemma ordinary_copied_rows: "ordinary_names db \<Longrightarrow> copied_rows db = user_tiles db"
  by (simp add: copied_rows_def user_tiles_def ordinary_copied_tables)


lemma ordinary_plain: "ordinary_names db \<Longrightarrow> plain_names db"
  by (simp add: ordinary_names_def)

section \<open>Template search, template rows and the catalog during the merge\<close>









section \<open>Facts of the example files\<close>

lemma scenario_run:
  "snd (main example_env scenario_args scenario_files) =
     Merged \<lparr>merged2 = 2, merged1 = 0, totalTiles = 2, zoomLevels = [0, 1],
             finalOutputFilename = ''merged_a_b.gpkg''\<rparr>"
  by code_simp




section \<open>Priority of the second file\<close>

text \<open>
  Where the tables that the program takes for system tables are the system tables, and
  neither path contains a single quote, a key of both files is stored once, with a payload
  of the second file.
\<close>

lemma priority_of_second_file:
  assumes "main e args fs = (fs', Merged r)"
    and "fs (args ! 0) = Some A" "fs (args ! 1) = Some B"
    and "ordinary_names A" "ordinary_names B"
    and "squote \<notin> set (args ! 0)" "squote \<notin> set (args ! 1)"
    and "output_path e args fs \<noteq> args ! 0" "output_path e args fs \<noteq> args ! 1"
    and "k \<in> set (map tile_key (user_tiles A))" "k \<in> set (map tile_key (user_tiles B))"
  shows "\<exists>rows b.
           output_rows fs' (output_path e args fs) (table_name_arg args) = Some rows
           \<and> length (filter (\<lambda>x. tile_key x = k) rows) = 1
           \<and> b \<in> set (user_tiles B) \<and> tile_key b = k
           \<and> payload_at rows k = Some (tile_data b)"
proof -
  have cA: "copied_rows A = user_tiles A" and cB: "copied_rows B = user_tiles B"
    using assms(4,5) by (simp_all add: ordinary_copied_rows)
  from main_rows [OF assms(1-3) ordinary_plain [OF assms(4)] ordinary_plain [OF assms(5)]
      assms(6-9)]
  obtain rowsB rows where
    b: "insert_rows False (user_tiles B) [] = (rowsB, merged2 r)"
    and a: "insert_rows True (user_tiles A) rowsB = (rows, merged1 r)"
    and out: "output_rows fs' (output_path e args fs) (table_name_arg args) = Some rows"
    unfolding cA cB by blast
  have rowsB: "rowsB = fst (fold (insert_row False) (user_tiles B) ([], 0))"
    using b by (simp add: insert_rows_def)
  have rows: "rows = fst (fold (insert_row True) (user_tiles A) (rowsB, 0))"
    using a by (simp add: insert_rows_def)
  from replace_wins [OF assms(11), of "[]" 0] obtain t where
    t: "t \<in> set (user_tiles B)" "tile_key t = k" "payload_at rowsB k = Some (tile_data t)"
    by (auto simp: rowsB)
  have kB: "k \<in> set (map tile_key rowsB)"
    using assms(11) replace_keys [of "user_tiles B" "[]" 0] by (simp add: rowsB)
  from ignore_extends [of "user_tiles A" rowsB 0] obtain new where
    new: "rows = rowsB @ new" by (auto simp: rows)
  have p: "payload_at rows k = Some (tile_data t)"
    using t(3) kB by (simp add: new payload_at_append_hit)
  have "distinct (map tile_key rowsB)"
    unfolding rowsB by (rule replace_distinct) simp
  then have d: "distinct (map tile_key rows)"
    unfolding rows by (rule ignore_distinct)
  have "k \<in> set (map tile_key rows)" using kB by (auto simp: new)
  with d have "length (filter (\<lambda>x. tile_key x = k) rows) = 1" by (rule distinct_key_count)
  with out t p show ?thesis by blast
qed

text \<open>
  Claim C1 (priority law): for every two files that both hold a tile under one key, the
  merged table holds the payload of the second file under that key, never that of the
  first. The program does not do this. The second file's only tile table is named
  \<^verbatim>\<open>idxtiles\<close>, a user data table; both files hold a tile under \<open>(0,0,0)\<close>,
  \<open>a\<close> in the first and \<open>b\<close> in the second. The pattern \<^verbatim>\<open>idx_%\<close> of
  \<open>getDataTables\<close> matches the name, no row of the second file is copied, and the merged
  table holds \<open>a\<close> under the key. Likewise when the path of the second file is
  \<^verbatim>\<open>b''x.gpkg\<close>: the \<^verbatim>\<open>ATTACH\<close> statement names the file
  \<^verbatim>\<open>b'x.gpkg\<close>, whose rows are copied in place of the second file's, and
  \<open>(0,0,0)\<close> keeps the payload \<open>a\<close>.
\<close>

theorem priority_lost:
  "user_tiles scenario_A = [mk_tile 0 0 0 ''a'']
   \<and> user_tiles idx_B = [mk_tile 0 0 0 ''b'']
   \<and> copied_rows idx_B = []
   \<and> snd (main example_env scenario_args idx_files)
       = Merged \<lparr>merged2 = 0, merged1 = 1, totalTiles = 1, zoomLevels = [0],
                 finalOutputFilename = ''merged_a_b.gpkg''\<rparr>
   \<and> output_rows (fst (main example_env scenario_args idx_files))
         ''merged_a_b.gpkg'' ''merged_tiles'' = Some [mk_tile 0 0 0 ''a'']
   \<and> quoted_files (quoted_args ! 1) = Some scenario_B
   \<and> user_tiles scenario_B = [mk_tile 0 0 0 ''b'', mk_tile 1 0 1 ''c'']
   \<and> snd (main example_env quoted_args quoted_files)
       = Merged \<lparr>merged2 = 2, merged1 = 1, totalTiles = 3, zoomLevels = [0, 1],
                 finalOutputFilename = ''out.gpkg''\<rparr>
   \<and> output_rows (fst (main example_env quoted_args quoted_files))
         ''out.gpkg'' ''merged_tiles''
       = Some [mk_tile 1 0 1 ''c'', mk_tile 1 1 1 ''d'', mk_tile 0 0 0 ''a'']"
  by code_simp

section \<open>Disjoint sources\<close>

text \<open>
  Where the tables that the program takes for system tables are the system tables, and
  neither path contains a single quote, two files with no key in common (and no key
  twice in either) give a merged table with the tiles of both, payloads unchanged.
\<close>

lemma union_of_disjoint_sources:
  assumes "main e args fs = (fs', Merged r)"
    and "fs (args ! 0) = Some A" "fs (args ! 1) = Some B"
    and "ordinary_names A" "ordinary_names B"
    and "squote \<notin> set (args ! 0)" "squote \<notin> set (args ! 1)"
    and "output_path e args fs \<noteq> args ! 0" "output_path e args fs \<noteq> args ! 1"
    and "distinct (map tile_key (user_tiles A))" "distinct (map tile_key (user_tiles B))"
    and "set (map tile_key (user_tiles A)) \<inter> set (map tile_key (user_tiles B)) = {}"
  shows "\<exists>rows.
           output_rows fs' (output_path e args fs) (table_name_arg args) = Some rows
           \<and> length rows = length (user_tiles A) + length (user_tiles B)
           \<and> totalTiles r = length (user_tiles A) + length (user_tiles B)
           \<and> (\<forall>t \<in> set (user_tiles A) \<union> set (user_tiles B).
                 payload_at rows (tile_key t) = Some (tile_data t))"
proof -
  have cA: "copied_rows A = user_tiles A" and cB: "copied_rows B = user_tiles B"
    using assms(4,5) by (simp_all add: ordinary_copied_rows)
  from main_rows [OF assms(1-3) ordinary_plain [OF assms(4)] ordinary_plain [OF assms(5)]
      assms(6-9)]
  obtain rowsB rows where
    b: "insert_rows False (user_tiles B) [] = (rowsB, merged2 r)"
    and a: "insert_rows True (user_tiles A) rowsB = (rows, merged1 r)"
    and out: "output_rows fs' (output_path e args fs) (table_name_arg args) = Some rows"
    and tot: "totalTiles r = length rows"
    unfolding cA cB by blast
  have "fold (insert_row False) (user_tiles B) ([], 0) = ([] @ user_tiles B, 0 + length (user_tiles B))"
    using assms(11) by (intro fresh_rows_appended) simp_all
  with b have rowsB: "rowsB = user_tiles B" by (simp add: insert_rows_def)
  have "fold (insert_row True) (user_tiles A) (rowsB, 0)
          = (rowsB @ user_tiles A, 0 + length (user_tiles A))"
    using assms(10,12) by (intro fresh_rows_appended) (simp_all add: rowsB)
  with a have rows: "rows = user_tiles B @ user_tiles A" by (simp add: insert_rows_def rowsB)
  have d: "distinct (map tile_key rows)"
    using assms(10,11,12) by (auto simp: rows)
  have "\<forall>t \<in> set (user_tiles A) \<union> set (user_tiles B).
          payload_at rows (tile_key t) = Some (tile_data t)"
    using payload_at_distinct [OF d] by (auto simp: rows)
  with out tot show ?thesis by (auto simp: rows)
qed

text \<open>
  Claim C2 (disjoint sources): for every two files whose tile tables have no key in
  common, the merged table holds as many rows as both files hold tiles, and under every
  key of either file the payload of that file. The program does not do this. The first
  file holds one tile, under \<open>(0,0,0)\<close>; the second file's only tile table is named
  \<^verbatim>\<open>idxtiles\<close>, a user data table, and holds one tile, under \<open>(1,0,1)\<close>. The
  pattern \<^verbatim>\<open>idx_%\<close> of \<open>getDataTables\<close> matches the name, no row of the second
  file is copied, and the merged table holds one row, not two: nothing is stored under
  \<open>(1,0,1)\<close>.
\<close>

theorem disjoint_union_lost:
  "user_tiles scenario_A = [mk_tile 0 0 0 ''a'']
   \<and> user_tiles idx_apart_B = [mk_tile 1 0 1 ''c'']
   \<and> copied_rows idx_apart_B = []
   \<and> snd (main example_env scenario_args idx_apart_files)
       = Merged \<lparr>merged2 = 0, merged1 = 1, totalTiles = 1, zoomLevels = [0],
                 finalOutputFilename = ''merged_a_b.gpkg''\<rparr>
   \<and> output_rows (fst (main example_env scenario_args idx_apart_files))
         ''merged_a_b.gpkg'' ''merged_tiles'' = Some [mk_tile 0 0 0 ''a'']
   \<and> map_option (\<lambda>rows. payload_at rows (1, 0, 1))
        (output_rows (fst (main example_env scenario_args idx_apart_files))
           ''merged_a_b.gpkg'' ''merged_tiles'') = Some None"
  by code_simp

section \<open>Tile-matrix rows of the output\<close>




section \<open>No tile table in either file\<close>




section \<open>Exit codes\<close>

text \<open>
  Claim C5. The specification wants exit code 0 on success and two distinct positive
  codes, one for a missing input file and one for a failure of the merge or of the
  integrity check. The handler selects 1 when \<^verbatim>\<open>error.status\<close> is
  \<^verbatim>\<open>BAD_REQUEST\<close>, but no error of the program carries a \<^verbatim>\<open>status\<close>: a run
  with a missing input file exits with 2, as does a run that fails while merging.
\<close>

theorem exit_codes_coincide:
  "snd (main example_env [''missing.gpkg'', ''b.gpkg''] scenario_files)
     = Failed (Error ''Missing file(s): missing.gpkg'')
   \<and> exit_code (snd (main example_env [''missing.gpkg'', ''b.gpkg''] scenario_files)) = 2
   \<and> snd (main example_env scenario_args featured_files) = Failed no_tile_tables
   \<and> exit_code (snd (main example_env scenario_args featured_files)) = 2
   \<and> exit_code (snd (main example_env scenario_args scenario_files)) = 0
   \<and> (\<forall>err. exit_code (Failed err) = 2)"
proof -
  have 1: "snd (main example_env [''missing.gpkg'', ''b.gpkg''] scenario_files)
     = Failed (Error ''Missing file(s): missing.gpkg'')"
    by code_simp
  have 2: "snd (main example_env scenario_args featured_files) = Failed no_tile_tables"
    by code_simp
  have 3: "exit_code (Failed err) = 2" for err
    by (simp add: exit_code_def status_def)
  show ?thesis
    by (simp add: 1 2 3 scenario_run) (simp add: exit_code_def)
qed

section \<open>Failure and effect of the metadata templater\<close>

text \<open>
  Claim C6. \<open>copyTileMetadata\<close> ends with one of the three \<open>MissingMetadata\<close> errors
  exactly when the template table lacks a \<^verbatim>\<open>gpkg_contents\<close> entry, a
  \<^verbatim>\<open>gpkg_tile_matrix_set\<close> entry or any \<^verbatim>\<open>gpkg_tile_matrix\<close> row in its file,
  and ends without error exactly when the three are present. In that case the target
  catalog holds a contents row and a tile-matrix-set row for the new name, and a
  tile-matrix row for the new name at each zoom level of the template. The call never
  touches a table. A merge that ends with such an error leaves the destination table
  created and empty: no tile was copied.
\<close>

theorem missing_metadata_iff:
  "((\<exists>err. snd (copyTileMetadata now S T s t) = Some err \<and> missing_metadata s err)
      = (\<not> complete_metadata S s))
   \<and> ((snd (copyTileMetadata now S T s t) = None) = complete_metadata S s)
   \<and> (complete_metadata S s \<longrightarrow>
         contents_rows (fst (copyTileMetadata now S T s t)) t \<noteq> []
         \<and> matrix_set_rows (fst (copyTileMetadata now S T s t)) t \<noteq> []
         \<and> (\<forall>z \<in> set (matrix_zoom_levels S s).
               matrix_rows (fst (copyTileMetadata now S T s t)) t z \<noteq> []))
   \<and> tables (fst (copyTileMetadata now S T s t)) = tables T
   \<and> (\<forall>e fs out T0 f1 f2 fs2 T' err.
         merge_sequence e fs out T0 t f1 f2 = (fs2, T', Inl err) \<and> missing_metadata s err
         \<longrightarrow> output_rows (fs2(out \<mapsto> T')) out t = Some [])"
proof -
  have a: "((\<exists>err. snd (copyTileMetadata now S T s t) = Some err \<and> missing_metadata s err)
      = (\<not> complete_metadata S s))"
    by (auto simp: copyTileMetadata_result complete_metadata_def missing_metadata_def
          split: if_splits)
  have b: "(snd (copyTileMetadata now S T s t) = None) = complete_metadata S s"
    by (auto simp: copyTileMetadata_result complete_metadata_def)
  have c: "contents_rows (fst (copyTileMetadata now S T s t)) t \<noteq> []
         \<and> matrix_set_rows (fst (copyTileMetadata now S T s t)) t \<noteq> []
         \<and> (\<forall>z \<in> set (matrix_zoom_levels S s).
               matrix_rows (fst (copyTileMetadata now S T s t)) t z \<noteq> [])"
    if "complete_metadata S s"
  proof -
    from that b have run: "copyTileMetadata now S T s t = (fst (copyTileMetadata now S T s t), None)"
      by (simp add: prod_eq_iff)
    from copyTileMetadata_written [OF run] copyTileMetadata_matrix_rows [OF run]
    show ?thesis by (metis length_0_conv zero_neq_one)
  qed
  have d: "output_rows (fs2(out \<mapsto> T')) out t = Some []"
    if "merge_sequence e fs out T0 t f1 f2 = (fs2, T', Inl err)" "missing_metadata s err"
    for e fs out T0 f1 f2 fs2 T' err
    using merge_sequence_missing [OF that] by (auto simp: output_rows_def)
  have c': "complete_metadata S s \<longrightarrow>
         contents_rows (fst (copyTileMetadata now S T s t)) t \<noteq> []
         \<and> matrix_set_rows (fst (copyTileMetadata now S T s t)) t \<noteq> []
         \<and> (\<forall>z \<in> set (matrix_zoom_levels S s).
               matrix_rows (fst (copyTileMetadata now S T s t)) t z \<noteq> [])"
    using c by blast
  have d': "\<forall>e fs out T0 f1 f2 fs2 T' err.
         merge_sequence e fs out T0 t f1 f2 = (fs2, T', Inl err) \<and> missing_metadata s err
         \<longrightarrow> output_rows (fs2(out \<mapsto> T')) out t = Some []"
    using d by blast
  show ?thesis
    by (intro conjI a b c' d' copyTileMetadata_tables)
qed


theorem missing_metadata_iff_witness:
  "snd (copyTileMetadata ''2024-01-01 00:00:00'' scenario_A scenario_B ''tiles_a''
          ''merged_tiles'') = None
   \<and> contents_rows (fst (copyTileMetadata ''2024-01-01 00:00:00'' scenario_A scenario_B
          ''tiles_a'' ''merged_tiles'')) ''merged_tiles'' \<noteq> []
   \<and> matrix_set_rows (fst (copyTileMetadata ''2024-01-01 00:00:00'' scenario_A scenario_B
          ''tiles_a'' ''merged_tiles'')) ''merged_tiles'' \<noteq> []
   \<and> matrix_rows (fst (copyTileMetadata ''2024-01-01 00:00:00'' scenario_A scenario_B
          ''tiles_a'' ''merged_tiles'')) ''merged_tiles'' 0 \<noteq> []
   \<and> (\<exists>err. snd (copyTileMetadata ''2024-01-01 00:00:00'' bare_A scenario_B ''tiles_a''
          ''merged_tiles'') = Some err \<and> missing_metadata ''tiles_a'' err)
   \<and> output_rows
        ((fst (merge_sequence example_env (bare_files(''out.gpkg'' \<mapsto> bare_A)) ''out.gpkg''
                 bare_A ''merged_tiles'' ''a.gpkg'' ''b.gpkg''))(''out.gpkg'' \<mapsto>
           fst (snd (merge_sequence example_env (bare_files(''out.gpkg'' \<mapsto> bare_A))
                  ''out.gpkg'' bare_A ''merged_tiles'' ''a.gpkg'' ''b.gpkg''))))
        ''out.gpkg'' ''merged_tiles'' = Some []"
proof -
  note w = missing_metadata_iff [of "''2024-01-01 00:00:00''" scenario_A scenario_B
             "''tiles_a''" "''merged_tiles''"]
  note v = missing_metadata_iff [of "''2024-01-01 00:00:00''" bare_A scenario_B
             "''tiles_a''" "''merged_tiles''"]
  have full: "complete_metadata scenario_A ''tiles_a''" by code_simp
  have z: "0 \<in> set (matrix_zoom_levels scenario_A ''tiles_a'')" by code_simp
  have bare: "\<not> complete_metadata bare_A ''tiles_a''" by code_simp
  have run: "snd (snd (merge_sequence example_env (bare_files(''out.gpkg'' \<mapsto> bare_A))
                  ''out.gpkg'' bare_A ''merged_tiles'' ''a.gpkg'' ''b.gpkg''))
             = Inl (no_tile_matrix_entries ''tiles_a'')"
    by code_simp
  have mm: "missing_metadata ''tiles_a'' (no_tile_matrix_entries ''tiles_a'')"
    by (simp add: missing_metadata_def)
  have run': "merge_sequence example_env (bare_files(''out.gpkg'' \<mapsto> bare_A)) ''out.gpkg''
                  bare_A ''merged_tiles'' ''a.gpkg'' ''b.gpkg''
             = (fst (merge_sequence example_env (bare_files(''out.gpkg'' \<mapsto> bare_A))
                  ''out.gpkg'' bare_A ''merged_tiles'' ''a.gpkg'' ''b.gpkg''),
                fst (snd (merge_sequence example_env (bare_files(''out.gpkg'' \<mapsto> bare_A))
                  ''out.gpkg'' bare_A ''merged_tiles'' ''a.gpkg'' ''b.gpkg'')),
                Inl (no_tile_matrix_entries ''tiles_a''))"
    using run by (simp add: prod_eq_iff)
  from w full have 1: "snd (copyTileMetadata ''2024-01-01 00:00:00'' scenario_A scenario_B
          ''tiles_a'' ''merged_tiles'') = None" by blast
  from w full z have 2: "contents_rows (fst (copyTileMetadata ''2024-01-01 00:00:00'' scenario_A
          scenario_B ''tiles_a'' ''merged_tiles'')) ''merged_tiles'' \<noteq> []"
    and 3: "matrix_set_rows (fst (copyTileMetadata ''2024-01-01 00:00:00'' scenario_A scenario_B
          ''tiles_a'' ''merged_tiles'')) ''merged_tiles'' \<noteq> []"
    and 4: "matrix_rows (fst (copyTileMetadata ''2024-01-01 00:00:00'' scenario_A scenario_B
          ''tiles_a'' ''merged_tiles'')) ''merged_tiles'' 0 \<noteq> []"
    by blast+
  from v bare have 5: "\<exists>err. snd (copyTileMetadata ''2024-01-01 00:00:00'' bare_A scenario_B
          ''tiles_a'' ''merged_tiles'') = Some err \<and> missing_metadata ''tiles_a'' err"
    by blast
  from v run' mm have 6: "output_rows
        ((fst (merge_sequence example_env (bare_files(''out.gpkg'' \<mapsto> bare_A)) ''out.gpkg''
                 bare_A ''merged_tiles'' ''a.gpkg'' ''b.gpkg''))(''out.gpkg'' \<mapsto>
           fst (snd (merge_sequence example_env (bare_files(''out.gpkg'' \<mapsto> bare_A))
                  ''out.gpkg'' bare_A ''merged_tiles'' ''a.gpkg'' ''b.gpkg''))))
        ''out.gpkg'' ''merged_tiles'' = Some []"
    by blast
  show ?thesis by (intro conjI 1 2 3 4 5 6)
qed

section \<open>Reported counts\<close>



section \<open>Idempotence of the metadata write\<close>

text \<open>
  Claim C8. When \<open>copyTileMetadata\<close> has run for a template table and a target name, a
  second run with the same template and the same name succeeds and leaves exactly one
  contents row and exactly one tile-matrix-set row for the target name, and exactly one
  tile-matrix row for the target name at each zoom level of the template.
\<close>

theorem metadata_idempotent:
  assumes "copyTileMetadata now S T s t = (T1, None)"
  shows "\<exists>T2. copyTileMetadata now' S T1 s t = (T2, None)
           \<and> length (contents_rows T2 t) = 1
           \<and> length (matrix_set_rows T2 t) = 1
           \<and> (\<forall>z \<in> set (matrix_zoom_levels S s). length (matrix_rows T2 t z) = 1)"
proof -
  from assms have "snd (copyTileMetadata now S T s t) = None" by simp
  then have "snd (copyTileMetadata now' S T1 s t) = None"
    by (simp add: copyTileMetadata_result)
  then have run: "copyTileMetadata now' S T1 s t = (fst (copyTileMetadata now' S T1 s t), None)"
    by (simp add: prod_eq_iff)
  from copyTileMetadata_written [OF run] copyTileMetadata_matrix_rows [OF run]
  show ?thesis using run by blast
qed

theorem metadata_idempotent_witness:
  "\<exists>T2. copyTileMetadata ''2024-01-01 00:00:01'' scenario_A
           (fst (copyTileMetadata ''2024-01-01 00:00:00'' scenario_A scenario_B ''tiles_a''
                   ''merged_tiles''))
           ''tiles_a'' ''merged_tiles'' = (T2, None)
     \<and> length (contents_rows T2 ''merged_tiles'') = 1
     \<and> length (matrix_set_rows T2 ''merged_tiles'') = 1
     \<and> length (matrix_rows T2 ''merged_tiles'' 0) = 1"
proof -
  have "snd (copyTileMetadata ''2024-01-01 00:00:00'' scenario_A scenario_B ''tiles_a''
               ''merged_tiles'') = None"
    by code_simp
  then have first: "copyTileMetadata ''2024-01-01 00:00:00'' scenario_A scenario_B ''tiles_a''
               ''merged_tiles''
     = (fst (copyTileMetadata ''2024-01-01 00:00:00'' scenario_A scenario_B ''tiles_a''
               ''merged_tiles''), None)"
    by (simp add: prod_eq_iff)
  have z: "0 \<in> set (matrix_zoom_levels scenario_A ''tiles_a'')" by code_simp
  from metadata_idempotent [OF first, of "''2024-01-01 00:00:01''"] z
  show ?thesis by blast
qed

section \<open>What the cleanup drops and keeps\<close>

text \<open>
  On a database whose table names contain no double quote, the cleanup keeps the tables
  whose name one of the four \<^verbatim>\<open>LIKE\<close> patterns matches, in their order and with
  their content, and drops the others. Every table whose name begins with
  \<^verbatim>\<open>sqlite_\<close>, \<^verbatim>\<open>gpkg_\<close>, \<^verbatim>\<open>rtree_\<close> or \<^verbatim>\<open>idx_\<close> is kept,
  and the catalog rows are untouched.
\<close>

lemma cleanup_keeps_system_tables:
  assumes "quote_free db"
  shows "\<exists>db'. cleanupExistingTables db = (db', None)
           \<and> tables db' = filter (\<lambda>t. reserved_name (name t)) (tables db)
           \<and> (\<forall>t \<in> set (tables db). system_prefix (name t) \<longrightarrow> t \<in> set (tables db'))
           \<and> gpkg_contents db' = gpkg_contents db
           \<and> gpkg_tile_matrix_set db' = gpkg_tile_matrix_set db
           \<and> gpkg_tile_matrix db' = gpkg_tile_matrix db"
proof -
  let ?db' = "db\<lparr>tables := filter (\<lambda>t. reserved_name (name t)) (tables db)\<rparr>"
  have "\<forall>t \<in> set (tables db). dquote \<notin> set (name t)"
    using assms by (simp add: quote_free_def list_all_iff)
  then have c: "cleanupExistingTables db = (?db', None)"
    by (rule cleanup_filter)
  have k: "\<forall>t \<in> set (tables db). system_prefix (name t) \<longrightarrow> t \<in> set (tables ?db')"
    by (simp add: system_prefix_reserved)
  show ?thesis
    by (intro exI [of _ ?db'] conjI c k) simp_all
qed

text \<open>
  Claim C9 (cleanup): the cleanup drops every user data table of the cloned output, so
  that the only user data table of the final output is the new merged table, and it
  drops no table whose name begins with \<^verbatim>\<open>sqlite_\<close>, \<^verbatim>\<open>gpkg_\<close>,
  \<^verbatim>\<open>rtree_\<close> or \<^verbatim>\<open>idx_\<close>. The program does not do the first. The first
  file has two user data tables, \<^verbatim>\<open>places\<close> and the tile table
  \<^verbatim>\<open>idxtiles\<close>, whose name does not begin with any of the four prefixes. The
  pattern \<^verbatim>\<open>idx_%\<close> of \<open>getDataTables\<close> matches the name: the cleanup drops
  \<^verbatim>\<open>places\<close> and leaves \<^verbatim>\<open>idxtiles\<close> in place, and the output of the
  successful run holds two user data tables: \<^verbatim>\<open>idxtiles\<close> with the first file's
  tile, and the merged table.
\<close>

theorem cleanup_leaves_user_table:
  "map name (user_tables idx_A) = [''places'', ''idxtiles'']
   \<and> quote_free idx_A
   \<and> snd (cleanupExistingTables idx_A) = None
   \<and> map (\<lambda>t. (name t, rows_of t)) (user_tables (fst (cleanupExistingTables idx_A)))
       = [(''idxtiles'', [mk_tile 0 0 0 ''a''])]
   \<and> snd (main example_env scenario_args idx_first_files)
       = Merged \<lparr>merged2 = 2, merged1 = 0, totalTiles = 2, zoomLevels = [0, 1],
                 finalOutputFilename = ''merged_a_b.gpkg''\<rparr>
   \<and> output_user_tables (fst (main example_env scenario_args idx_first_files))
         ''merged_a_b.gpkg''
       = Some [(''idxtiles'', [mk_tile 0 0 0 ''a'']),
               (''merged_tiles'', [mk_tile 0 0 0 ''b'', mk_tile 1 0 1 ''c''])]"
  by code_simp

section \<open>The ATTACH statement\<close>




end
